theory Spec2Isabelle
  imports Main
begin

section \<open>JavaScript values\<close>

text \<open>
  The values that flags, environment constants and option fields hold in
  \<^verbatim>\<open>src/bin/lib/getOptions.js\<close>: \<^verbatim>\<open>undefined\<close>, booleans, strings, arrays (a
  repeated flag), the plain object built for \<^verbatim>\<open>https\<close>, and the built-in
  functions an object inherits (\<open>JFun\<close>, by name).
\<close>

datatype jsval =
    Undefined
  | JBool bool
  | JStr string
  | JArr "jsval list"
  | JObj "(string \<times> jsval) list"
  | JFun string

text \<open>
  JavaScript truthiness (\<^verbatim>\<open>!!v\<close>): arrays, objects and functions are always truthy.
\<close>

fun truthy :: "jsval \<Rightarrow> bool" where
  "truthy Undefined = False"
| "truthy (JBool b) = b"
| "truthy (JStr s) = (s \<noteq> [])"
| "truthy (JArr xs) = True"
| "truthy (JObj kvs) = True"
| "truthy (JFun n) = True"

text \<open>\<^verbatim>\<open>a || b\<close> and \<^verbatim>\<open>a && b\<close> on values.\<close>

definition js_or :: "jsval \<Rightarrow> jsval \<Rightarrow> jsval" where
  "js_or a b = (if truthy a then a else b)"

definition js_and :: "jsval \<Rightarrow> jsval \<Rightarrow> jsval" where
  "js_and a b = (if truthy a then b else a)"

text \<open>
  \<^verbatim>\<open>const takeLast = input => (Array.isArray(input) ? input[input.length - 1] : input);\<close>
  Indexing an empty array at \<open>-1\<close> gives \<^verbatim>\<open>undefined\<close>.
\<close>

fun takeLast :: "jsval \<Rightarrow> jsval" where
  "takeLast (JArr xs) = (if xs = [] then Undefined else last xs)"
| "takeLast v = v"

text \<open>\<^verbatim>\<open>v === ''\<close>\<close>

definition isEmptyStr :: "jsval \<Rightarrow> bool" where
  "isEmptyStr v = (v = JStr [])"

text \<open>The sentinel mapping \<^verbatim>\<open>v === '' ? true : v\<close>.\<close>

definition sentinel :: "jsval \<Rightarrow> jsval" where
  "sentinel v = (if isEmptyStr v then JBool True else v)"

text \<open>String conversion as a template literal does it (\<^verbatim>\<open>`${v}`\<close>).\<close>

fun joinWith :: "string \<Rightarrow> string list \<Rightarrow> string" where
  "joinWith sep [] = []"
| "joinWith sep [x] = x"
| "joinWith sep (x # y # ys) = x @ sep @ joinWith sep (y # ys)"

fun toStringJs :: "jsval \<Rightarrow> string" where
  "toStringJs Undefined = ''undefined''"
| "toStringJs (JBool b) = (if b then ''true'' else ''false'')"
| "toStringJs (JStr s) = s"
| "toStringJs (JArr xs) =
     joinWith '','' (map (\<lambda>x. if x = Undefined then [] else toStringJs x) xs)"
| "toStringJs (JObj kvs) = ''[object Object]''"
| "toStringJs (JFun n) = ''function '' @ n @ ''() { [native code] }''"

section \<open>Errors\<close>

text \<open>
  One constructor for each message the function throws, carrying the argument the
  message is rendered from, and \<open>TypeError\<close> for the exceptions the JavaScript runtime
  raises itself (a method called on a value that lacks it, a library function given
  a non-string).
\<close>

datatype error =
    MissingProjectToken
  | InvalidPatchBuild
  | DuplicatePatchBuild
  | InvalidSingularOptions "string list"
  | InvalidExitOnceUploaded
  | MissingBuildScriptName string
  | MissingScriptName string
  | MissingStorybookPort
  | UnknownStorybookPort string
  | TypeError

text \<open>The nine error kinds the function throws by name.\<close>

fun namedError :: "error \<Rightarrow> bool" where
  "namedError TypeError = False"
| "namedError e = True"

section \<open>Paths (Node's POSIX \<^verbatim>\<open>path\<close> module)\<close>

text \<open>Splitting a path at every \<open>/\<close>.\<close>

fun splitSlash :: "string \<Rightarrow> string \<Rightarrow> string list" where
  "splitSlash acc [] = [rev acc]"
| "splitSlash acc (c # cs) =
     (if c = CHR ''/'' then rev acc # splitSlash [] cs else splitSlash (c # acc) cs)"

text \<open>
  \<^verbatim>\<open>normalizeString\<close>: drops empty and \<open>.\<close> segments and resolves \<open>..\<close> against the
  segments kept so far (the list \<open>st\<close>, most recent first).
\<close>

fun normSegs :: "bool \<Rightarrow> string list \<Rightarrow> string list \<Rightarrow> string list" where
  "normSegs up st [] = rev st"
| "normSegs up st (s # ss) =
     (if s = [] \<or> s = ''.'' then normSegs up st ss
      else if s = ''..'' then
        (if st \<noteq> [] \<and> hd st \<noteq> ''..'' then normSegs up (tl st) ss
         else if up then normSegs up (s # st) ss
         else normSegs up st ss)
      else normSegs up (s # st) ss)"

definition path_normalize :: "string \<Rightarrow> string" where
  "path_normalize p =
     (if p = [] then ''.''
      else
        let isAbs = (hd p = CHR ''/'');
            trailing = (last p = CHR ''/'');
            q = joinWith ''/'' (normSegs (\<not> isAbs) [] (splitSlash [] p))
        in if q = [] then (if isAbs then ''/'' else if trailing then ''./'' else ''.'')
           else (if isAbs then ''/'' else []) @ q @ (if trailing then ''/'' else []))"

text \<open>\<^verbatim>\<open>path.join(a, b)\<close>: the non-empty arguments joined by \<open>/\<close>, then normalised.\<close>

definition path_join :: "string \<Rightarrow> string \<Rightarrow> string" where
  "path_join a b =
     (let joined = joinWith ''/'' (filter (\<lambda>s. s \<noteq> []) [a, b])
      in if joined = [] then ''.'' else path_normalize joined)"

text \<open>
  \<^verbatim>\<open>path.resolve(p)\<close> for one argument, against the working directory \<open>cwd\<close> (an
  absolute path): always an absolute path without a trailing slash.
\<close>

definition path_resolve :: "string \<Rightarrow> string \<Rightarrow> string" where
  "path_resolve cwd p =
     (let full = (if p \<noteq> [] \<and> hd p = CHR ''/'' then p else cwd @ ''/'' @ p)
      in CHR ''/'' # joinWith ''/'' (normSegs False [] (splitSlash [] full)))"

text \<open>
  \<^verbatim>\<open>const resolveHomeDir = filepath =>
    filepath && filepath.startsWith('~') ? path.join(process.env.HOME, filepath.slice(1)) : filepath;\<close>
  \<^verbatim>\<open>path.join\<close> raises a TypeError when \<^verbatim>\<open>HOME\<close> is not set, and
  \<^verbatim>\<open>startsWith\<close> exists on strings only.
\<close>

fun resolveHomeDir :: "string option \<Rightarrow> jsval \<Rightarrow> error + jsval" where
  "resolveHomeDir home (JStr p) =
     (if p \<noteq> [] \<and> hd p = CHR ''~'' then
        (case home of None \<Rightarrow> Inl TypeError | Some h \<Rightarrow> Inr (JStr (path_join h (tl p))))
      else Inr (JStr p))"
| "resolveHomeDir home v = (if truthy v then Inl TypeError else Inr v)"

text \<open>
  A path segment that normalisation keeps as it is: not empty, not \<open>.\<close> or \<open>..\<close>,
  and without a slash.
\<close>

definition plainSeg :: "string \<Rightarrow> bool" where
  "plainSeg s = (s \<noteq> [] \<and> s \<noteq> ''.'' \<and> s \<noteq> ''..'' \<and> CHR ''/'' \<notin> set s)"

section \<open>URLs (Node's legacy \<^verbatim>\<open>url.parse\<close> and \<^verbatim>\<open>format\<close>)\<close>

text \<open>
  The components \<^verbatim>\<open>url.parse\<close> returns that \<^verbatim>\<open>format\<close> reads. A component that
  is \<^verbatim>\<open>null\<close> in Node is \<open>None\<close>. The model covers the splitting into protocol,
  host, pathname, search and hash; it keeps the text between the slashes and the path
  as \<open>host\<close> (credentials and port included) and does not model percent escaping,
  whitespace trimming or the lower-casing of host names.
\<close>

record parsedUrl =
  protocol :: "string option"
  slashes :: bool
  host :: "string option"
  pathname :: "string option"
  search :: "string option"
  hash :: "string option"

definition lowerChar :: "char \<Rightarrow> char" where
  "lowerChar c =
     (case map_of (zip ''ABCDEFGHIJKLMNOPQRSTUVWXYZ'' ''abcdefghijklmnopqrstuvwxyz'') c of
        Some d \<Rightarrow> d | None \<Rightarrow> c)"

text \<open>The characters of \<^verbatim>\<open>/^[a-z0-9.+-]+:/i\<close>.\<close>

definition protoChar :: "char \<Rightarrow> bool" where
  "protoChar c =
     (c \<in> set ''abcdefghijklmnopqrstuvwxyzABCDEFGHIJKLMNOPQRSTUVWXYZ0123456789.+-'')"

definition splitProto :: "string \<Rightarrow> string option \<times> string" where
  "splitProto s =
     (let p = takeWhile protoChar s; r = dropWhile protoChar s
      in if p \<noteq> [] \<and> r \<noteq> [] \<and> hd r = CHR '':''
         then (Some (map lowerChar p @ '':''), tl r) else (None, s))"

definition slashedProtocol :: "string option \<Rightarrow> bool" where
  "slashedProtocol p =
     (p \<in> Some ` {''http:'', ''https:'', ''ftp:'', ''gopher:'', ''file:'', ''ws:'', ''wss:''})"

definition hostlessProtocol :: "string option \<Rightarrow> bool" where
  "hostlessProtocol p = (p = Some ''javascript:'')"

definition hostEnding :: "char \<Rightarrow> bool" where
  "hostEnding c = (c = CHR ''/'' \<or> c = CHR ''?'' \<or> c = CHR ''#'')"

definition url_parse :: "string \<Rightarrow> parsedUrl" where
  "url_parse s =
     (let (proto, rest0) = splitProto s;
          sl = (proto \<noteq> None \<and> take 2 rest0 = ''//'' \<and> \<not> hostlessProtocol proto);
          rest1 = (if sl then drop 2 rest0 else rest0);
          withHost = (\<not> hostlessProtocol proto \<and>
                      (sl \<or> (proto \<noteq> None \<and> \<not> slashedProtocol proto)));
          h = (if withHost then Some (takeWhile (\<lambda>c. \<not> hostEnding c) rest1) else None);
          rest2 = (if withHost then dropWhile (\<lambda>c. \<not> hostEnding c) rest1 else rest1);
          hs = dropWhile (\<lambda>c. c \<noteq> CHR ''#'') rest2;
          rest3 = takeWhile (\<lambda>c. c \<noteq> CHR ''#'') rest2;
          se = dropWhile (\<lambda>c. c \<noteq> CHR ''?'') rest3;
          rest4 = takeWhile (\<lambda>c. c \<noteq> CHR ''?'') rest3
      in \<lparr> protocol = proto, slashes = sl, host = h,
           pathname =
             (if rest4 \<noteq> [] then Some rest4
              else if slashedProtocol proto \<and> h \<noteq> None \<and> h \<noteq> Some [] then Some ''/''
              else None),
           search = (if se = [] then None else Some se),
           hash = (if hs = [] then None else Some hs) \<rparr>)"

definition orEmpty :: "string option \<Rightarrow> string" where
  "orEmpty x = (case x of None \<Rightarrow> [] | Some s \<Rightarrow> s)"

definition url_format :: "parsedUrl \<Rightarrow> string" where
  "url_format u =
     (let pr = orEmpty (protocol u);
          hostGiven = (orEmpty (host u) \<noteq> []);
          pn = orEmpty (pathname u);
          dbl = (slashes u \<or> ((protocol u = None \<or> slashedProtocol (protocol u)) \<and> hostGiven))
      in pr @ (if dbl then ''//'' else []) @ orEmpty (host u)
            @ (if dbl \<and> pn \<noteq> [] \<and> hd pn \<noteq> CHR ''/'' then CHR ''/'' # pn else pn)
            @ orEmpty (search u) @ orEmpty (hash u))"

text \<open>\<^verbatim>\<open>s.endsWith(t)\<close>\<close>

definition endsWith :: "string \<Rightarrow> string \<Rightarrow> bool" where
  "endsWith s t = (length t \<le> length s \<and> drop (length s - length t) s = t)"

text \<open>
  Lines 171 to 177: the suffix is appended to the pathname unless it is there, after
  a \<open>/\<close> unless the pathname ends with one.
\<close>

definition addSuffix :: "string \<Rightarrow> string" where
  "addSuffix pn =
     (if endsWith pn ''iframe.html'' then pn
      else (if endsWith pn ''/'' then pn else pn @ ''/'') @ ''iframe.html'')"



section \<open>Reading a switch out of a script's command string\<close>

text \<open>
  Modelled from the spec: the tokens that \<^verbatim>\<open>./getStorybookConfiguration\<close> (not among
  the sources) scans, taken as the pieces of the command string between white space
  and \<open>=\<close> signs, as the spec's example \<^verbatim>\<open>--ssl-cert=./c.pem\<close> needs.
\<close>

definition tokenSep :: "char \<Rightarrow> bool" where
  "tokenSep c = (c = CHR '' '' \<or> c = CHR 0x09 \<or> c = CHR 0x0A \<or> c = CHR ''='')"

fun tokens :: "string \<Rightarrow> string \<Rightarrow> string list" where
  "tokens acc [] = (if acc = [] then [] else [rev acc])"
| "tokens acc (c # cs) =
     (if tokenSep c then (if acc = [] then tokens [] cs else rev acc # tokens [] cs)
      else tokens (c # acc) cs)"

text \<open>
  Modelled from the spec: the value of the first token that is one of the names.
\<close>

fun afterSwitch :: "string list \<Rightarrow> string list \<Rightarrow> jsval" where
  "afterSwitch names [] = Undefined"
| "afterSwitch names [t] = (if t \<in> set names then JBool True else Undefined)"
| "afterSwitch names (t # v # ts) =
     (if t \<in> set names then JStr v else afterSwitch names (v # ts))"

text \<open>
  Modelled from the spec: \<^verbatim>\<open>./getStorybookConfiguration\<close> is imported by
  \<^verbatim>\<open>getOptions.js\<close> and is not among the sources. The spec describes it as a
  pure function from a command string and a switch name to an optional value, which
  scans the tokens of the string for the switch: the presence of \<^verbatim>\<open>--https\<close>
  implies TLS, \<^verbatim>\<open>--ssl-cert\<close>, \<^verbatim>\<open>--ssl-key\<close> and \<^verbatim>\<open>--ssl-ca\<close> give paths,
  \<^verbatim>\<open>-p\<close>/\<^verbatim>\<open>--port\<close> gives the port. Here the value of a switch is the token that
  follows its first occurrence, \<^verbatim>\<open>true\<close> when it is the last token, and
  \<^verbatim>\<open>undefined\<close> when the switch does not occur.
\<close>

definition getStorybookConfiguration :: "string \<Rightarrow> string \<Rightarrow> string option \<Rightarrow> jsval" where
  "getStorybookConfiguration storybookScript shortName longName =
     afterSwitch (shortName # (case longName of None \<Rightarrow> [] | Some l \<Rightarrow> [l]))
       (tokens [] storybookScript)"

section \<open>Inputs\<close>

text \<open>The flags \<^verbatim>\<open>getOptions\<close> reads, each as the parser delivers it.\<close>

record flags =
  fl_patchBuild :: jsval
  fl_projectToken :: jsval
  fl_appCode :: jsval
  fl_config :: jsval
  fl_only :: jsval
  fl_list :: jsval
  fl_ci :: jsval
  fl_skip :: jsval
  fl_debug :: jsval
  fl_interactive :: jsval
  fl_autoAcceptChanges :: jsval
  fl_exitZeroOnChanges :: jsval
  fl_exitOnceUploaded :: jsval
  fl_ignoreLastBuildOnBranch :: jsval
  fl_preserveMissing :: jsval
  fl_buildScriptName :: jsval
  fl_allowConsoleErrors :: jsval
  fl_scriptName :: jsval
  fl_exec :: jsval
  fl_doNotStart :: jsval
  fl_storybookHttps :: jsval
  fl_storybookCert :: jsval
  fl_storybookKey :: jsval
  fl_storybookCa :: jsval
  fl_storybookPort :: jsval
  fl_storybookUrl :: jsval
  fl_storybookBuildDir :: jsval

text \<open>
  What the function reads besides its arguments: the four constants imported from
  \<^verbatim>\<open>../constants\<close> (not among the sources, so they are parameters),
  \<^verbatim>\<open>process.env.HOME\<close>, the working directory, the \<^verbatim>\<open>scripts\<close> table of
  \<^verbatim>\<open>./package.json\<close> (\<open>None\<close> when the manifest has none; \<open>scripts\<close> holds the
  object's own keys, each with a command string), and whether a logger was passed.
\<close>

record env =
  CHROMATIC_PROJECT_TOKEN :: jsval
  CHROMATIC_CREATE_TUNNEL :: jsval
  CHROMATIC_INDEX_URL :: jsval
  CHROMATIC_TUNNEL_URL :: jsval
  HOME :: "string option"
  cwd :: string
  scripts :: "(string \<rightharpoonup> string) option"
  hasLog :: bool

text \<open>
  The manifest is the result of \<^verbatim>\<open>JSON.parse\<close>, so its \<^verbatim>\<open>scripts\<close> object inherits
  from \<^verbatim>\<open>Object.prototype\<close>: a property read under one of these names finds a
  built-in function when the object has no own key of that name.
\<close>

definition prototypeFunctions :: "string list" where
  "prototypeFunctions =
     [''constructor'', ''__defineGetter__'', ''__defineSetter__'', ''hasOwnProperty'',
      ''__lookupGetter__'', ''__lookupSetter__'', ''isPrototypeOf'',
      ''propertyIsEnumerable'', ''toString'', ''valueOf'', ''toLocaleString'']"

text \<open>
  What a property read finds on \<^verbatim>\<open>Object.prototype\<close>; \<^verbatim>\<open>__proto__\<close> reads as the
  prototype object itself.
\<close>

definition inherited :: "string \<Rightarrow> jsval" where
  "inherited name =
     (if name \<in> set prototypeFunctions then JFun name
      else if name = ''__proto__'' then JObj []
      else Undefined)"

text \<open>
  \<^verbatim>\<open>packageJson.scripts && packageJson.scripts[name]\<close>, as a value: the own key if
  there is one, else what the object inherits under that name.
\<close>

definition scriptOf :: "env \<Rightarrow> string \<Rightarrow> jsval" where
  "scriptOf e name =
     (case scripts e of None \<Rightarrow> Undefined
      | Some m \<Rightarrow> (case m name of None \<Rightarrow> inherited name | Some cmd \<Rightarrow> JStr cmd))"

section \<open>The options record (lines 29 to 73)\<close>

record options =
  projectToken :: jsval
  config :: jsval
  only :: jsval
  list :: jsval
  fromCI :: bool
  skip :: jsval
  verbose :: bool
  interactive :: bool
  autoAcceptChanges :: jsval
  exitZeroOnChanges :: jsval
  exitOnceUploaded :: jsval
  ignoreLastBuildOnBranch :: jsval
  preserveMissingSpecs :: jsval
  originalArgv :: "string list"
  buildScriptName :: jsval
  allowConsoleErrors :: jsval
  scriptName :: jsval
  exec :: jsval
  noStart :: bool
  https :: jsval
  cert :: jsval
  key :: jsval
  ca :: jsval
  port :: jsval
  storybookUrl :: jsval
  storybookBuildDir :: jsval
  createTunnel :: bool
  indexUrl :: jsval
  tunnelUrl :: jsval
  patchHeadRef :: jsval
  patchBaseRef :: jsval

text \<open>\<^verbatim>\<open>s.split('...')\<close>: the pieces between the occurrences found left to right.\<close>

fun splitDots :: "string \<Rightarrow> string \<Rightarrow> string list" where
  "splitDots acc [] = [rev acc]"
| "splitDots acc (c # cs) =
     (if take 3 (c # cs) = ''...'' then rev acc # splitDots [] (drop 2 cs)
      else splitDots (c # acc) cs)"

text \<open>
  Line 29: \<^verbatim>\<open>(flags.patchBuild || '').split('...').filter(Boolean)\<close>. Only strings
  have \<^verbatim>\<open>split\<close>, so a truthy value of another type raises a TypeError.
\<close>

definition patchRefs :: "jsval \<Rightarrow> error + string list" where
  "patchRefs pb =
     (if truthy pb then
        (case pb of JStr s \<Rightarrow> Inr (filter (\<lambda>x. x \<noteq> []) (splitDots [] s))
         | _ \<Rightarrow> Inl TypeError)
      else Inr [])"

text \<open>An element of the destructured array, \<^verbatim>\<open>undefined\<close> past its end.\<close>

definition nthRef :: "string list \<Rightarrow> nat \<Rightarrow> jsval" where
  "nthRef xs i = (if i < length xs then JStr (xs ! i) else Undefined)"

text \<open>
  Lines 60 to 66. \<^verbatim>\<open>path.resolve\<close> raises a TypeError on anything but a string.
\<close>

definition resolveBuildDir :: "string \<Rightarrow> jsval \<Rightarrow> error + jsval" where
  "resolveBuildDir wd v =
     (if truthy v then
        (case (case v of JArr xs \<Rightarrow> (if xs = [] then Undefined else hd xs) | _ \<Rightarrow> v) of
           JStr p \<Rightarrow> Inr (JStr (path_resolve wd p))
         | _ \<Rightarrow> Inl TypeError)
      else Inr Undefined)"

text \<open>
  Lines 31 to 73: the object literal, given the refs of line 29 and the resolved
  build directory.
\<close>

definition optionsRecord :: "env \<Rightarrow> flags \<Rightarrow> string list \<Rightarrow> string list \<Rightarrow> jsval \<Rightarrow> options" where
  "optionsRecord e f argv refs dir =
     \<lparr> projectToken =
         js_or (takeLast (js_or (fl_projectToken f) (fl_appCode f)))
           (CHROMATIC_PROJECT_TOKEN e),
       config = fl_config f,
       only = fl_only f,
       list = fl_list f,
       fromCI = truthy (fl_ci f),
       skip = sentinel (fl_skip f),
       verbose = truthy (fl_debug f),
       interactive = (\<not> truthy (fl_ci f) \<and> truthy (fl_interactive f)),
       autoAcceptChanges = sentinel (fl_autoAcceptChanges f),
       exitZeroOnChanges = sentinel (fl_exitZeroOnChanges f),
       exitOnceUploaded = sentinel (fl_exitOnceUploaded f),
       ignoreLastBuildOnBranch = fl_ignoreLastBuildOnBranch f,
       preserveMissingSpecs = fl_preserveMissing f,
       originalArgv = argv,
       buildScriptName = fl_buildScriptName f,
       allowConsoleErrors = fl_allowConsoleErrors f,
       scriptName = sentinel (fl_scriptName f),
       exec = fl_exec f,
       noStart = truthy (fl_doNotStart f),
       https = fl_storybookHttps f,
       cert = fl_storybookCert f,
       key = fl_storybookKey f,
       ca = fl_storybookCa f,
       port = fl_storybookPort f,
       storybookUrl = sentinel (fl_storybookUrl f),
       storybookBuildDir = dir,
       createTunnel =
         (\<not> truthy (fl_storybookUrl f) \<and> CHROMATIC_CREATE_TUNNEL e \<noteq> JStr ''false''),
       indexUrl = CHROMATIC_INDEX_URL e,
       tunnelUrl = CHROMATIC_TUNNEL_URL e,
       patchHeadRef = nthRef refs 0,
       patchBaseRef = nthRef refs 1 \<rparr>"

text \<open>
  Lines 29 to 73 with the two places that can raise: the split of line 29 comes
  first, the build directory is resolved while the literal is evaluated.
\<close>

definition mkOptions :: "env \<Rightarrow> flags \<Rightarrow> string list \<Rightarrow> error + options" where
  "mkOptions e f argv =
     (case patchRefs (fl_patchBuild f) of Inl err \<Rightarrow> Inl err | Inr refs \<Rightarrow>
      (case resolveBuildDir (cwd e) (fl_storybookBuildDir f) of Inl err \<Rightarrow> Inl err
       | Inr dir \<Rightarrow> Inr (optionsRecord e f argv refs dir)))"

section \<open>The resolver (lines 75 to 185)\<close>

text \<open>Lines 98 to 105: the five singular selectors, in the order of the object's keys.\<close>

definition singularOpts :: "(string \<times> string) list" where
  "singularOpts =
     [(''buildScriptName'', ''--build-script-name''),
      (''scriptName'', ''--script-name''),
      (''exec'', ''--exec''),
      (''storybookUrl'', ''--storybook-url''),
      (''storybookBuildDir'', ''--storybook-build-dir'')]"

text \<open>\<^verbatim>\<open>options[name]\<close> for the five names.\<close>

definition optField :: "options \<Rightarrow> string \<Rightarrow> jsval" where
  "optField options name =
     (if name = ''buildScriptName'' then buildScriptName options
      else if name = ''scriptName'' then scriptName options
      else if name = ''exec'' then exec options
      else if name = ''storybookUrl'' then storybookUrl options
      else if name = ''storybookBuildDir'' then storybookBuildDir options
      else Undefined)"

definition foundSingularOpts :: "options \<Rightarrow> string list" where
  "foundSingularOpts options =
     filter (\<lambda>name. truthy (optField options name)) (map fst singularOpts)"

definition labelOf :: "string \<Rightarrow> string" where
  "labelOf k = (case map_of singularOpts k of Some l \<Rightarrow> l | None \<Rightarrow> ''undefined'')"

text \<open>
  The value returned: the options record with the fields the return statement
  overrides, and \<^verbatim>\<open>url\<close> where the return statement sets it. \<open>notices\<close> are the
  pairs of script name and port passed to \<^verbatim>\<open>log.info\<close> through
  \<^verbatim>\<open>inferredOptions\<close> on the way (none without a logger).
\<close>

record resolved =
  opts :: options
  url :: "string option"
  notices :: "(string \<times> jsval) list"

text \<open>Lines 91 to 95.\<close>

definition callerHttps :: "options \<Rightarrow> jsval" where
  "callerHttps options =
     js_and (https options)
       (JObj [(''cert'', cert options), (''key'', key options), (''ca'', ca options)])"

text \<open>
  Lines 151 to 157: the caller's value if truthy, else the value of the script's
  \<^verbatim>\<open>--https\<close> switch if falsy, else an object of the three paths the script
  names, each through \<open>resolveHomeDir\<close>.
\<close>

definition inferHttps :: "env \<Rightarrow> jsval \<Rightarrow> string \<Rightarrow> error + jsval" where
  "inferHttps e h storybookScript =
     (if truthy h then Inr h
      else if \<not> truthy (getStorybookConfiguration storybookScript ''--https'' None)
        then Inr (getStorybookConfiguration storybookScript ''--https'' None)
      else
        (case resolveHomeDir (HOME e)
                (getStorybookConfiguration storybookScript ''--ssl-cert'' None) of
           Inl err \<Rightarrow> Inl err
         | Inr c \<Rightarrow>
        (case resolveHomeDir (HOME e)
                (getStorybookConfiguration storybookScript ''--ssl-key'' None) of
           Inl err \<Rightarrow> Inl err
         | Inr k \<Rightarrow>
        (case resolveHomeDir (HOME e)
                (getStorybookConfiguration storybookScript ''--ssl-ca'' None) of
           Inl err \<Rightarrow> Inl err
         | Inr a \<Rightarrow> Inr (JObj [(''cert'', c), (''key'', k), (''ca'', a)])))))"

text \<open>The local variables the start branch assigns.\<close>

record locals =
  l_https :: jsval
  l_port :: jsval
  l_scriptName :: jsval
  l_notices :: "(string \<times> jsval) list"

text \<open>
  Lines 138 to 165, entered when \<^verbatim>\<open>storybookUrl\<close> is falsy; \<open>ns\<close> is the local
  \<^verbatim>\<open>noStart\<close>. The value found under the script name may be an inherited function
  rather than a command string. Modelled from the spec: \<^verbatim>\<open>./getStorybookConfiguration\<close>
  (not among the sources) takes a command string, and is taken to raise a TypeError
  when it is called on a value that is not a string; it is called for \<^verbatim>\<open>--https\<close>
  only when the caller's \<^verbatim>\<open>https\<close> is falsy, and for the port only when the
  caller's \<^verbatim>\<open>port\<close> is falsy.
\<close>

definition startStorybook :: "env \<Rightarrow> options \<Rightarrow> bool \<Rightarrow> error + locals" where
  "startStorybook e options ns =
     (if truthy (exec options) \<and> \<not> truthy (port options) then Inl MissingStorybookPort
      else if \<not> truthy (exec options) \<and> (\<not> truthy (port options) \<or> \<not> ns) then
        (let sn = (case scriptName options of JStr n \<Rightarrow> n | _ \<Rightarrow> ''storybook'') in
         (case scriptOf e sn of
            JStr storybookScript \<Rightarrow>
              (if storybookScript = [] then Inl (MissingScriptName sn)
               else
                 (case inferHttps e (callerHttps options) storybookScript of
                    Inl err \<Rightarrow> Inl err
                  | Inr h \<Rightarrow>
                      (let p = js_or (port options)
                                 (getStorybookConfiguration storybookScript ''-p''
                                    (Some ''--port''))
                       in if \<not> truthy p then Inl (UnknownStorybookPort sn)
                          else Inr \<lparr> l_https = h, l_port = p, l_scriptName = JStr sn,
                                     l_notices = (if hasLog e then [(sn, p)] else []) \<rparr>)))
          | v \<Rightarrow>
              (if \<not> truthy v then Inl (MissingScriptName sn)
               else if \<not> truthy (callerHttps options) \<or> \<not> truthy (port options)
                 then Inl TypeError
               else Inr \<lparr> l_https = callerHttps options, l_port = port options,
                          l_scriptName = JStr sn,
                          l_notices = (if hasLog e then [(sn, port options)] else []) \<rparr>)))
      else Inr \<lparr> l_https = callerHttps options, l_port = port options,
                 l_scriptName = scriptName options, l_notices = [] \<rparr>)"

text \<open>Line 167.\<close>

definition localUrl :: "jsval \<Rightarrow> jsval \<Rightarrow> string" where
  "localUrl h p =
     (if truthy h then ''https'' else ''http'') @ ''://localhost:'' @ toStringJs p"

text \<open>
  Lines 170 to 183: \<^verbatim>\<open>url.parse\<close> raises a TypeError on a value that is not a
  string, and \<^verbatim>\<open>endsWith\<close> on a pathname that is \<^verbatim>\<open>null\<close> does too.
\<close>

definition finalizeUrl :: "jsval \<Rightarrow> error + string" where
  "finalizeUrl v =
     (case v of
        JStr u \<Rightarrow>
          (case pathname (url_parse u) of
             None \<Rightarrow> Inl TypeError
           | Some pn \<Rightarrow> Inr (url_format ((url_parse u)\<lparr>pathname := Some (addSuffix pn)\<rparr>)))
      | _ \<Rightarrow> Inl TypeError)"

text \<open>Lines 125 to 134, entered when the build condition of line 125 holds.\<close>

definition buildStorybook :: "env \<Rightarrow> options \<Rightarrow> error + resolved" where
  "buildStorybook e options =
     (if truthy (storybookBuildDir options)
      then Inr \<lparr> opts = options\<lparr>noStart := True\<rparr>, url = None, notices = [] \<rparr>
      else
        (let bsn = (case buildScriptName options of JStr n \<Rightarrow> n | _ \<Rightarrow> ''build-storybook'')
         in if truthy (scriptOf e bsn)
            then Inr \<lparr> opts = options\<lparr>noStart := True, buildScriptName := JStr bsn\<rparr>,
                       url = None, notices = [] \<rparr>
            else Inl (MissingBuildScriptName bsn)))"

text \<open>Lines 137 to 185.\<close>

definition startOrFetch :: "env \<Rightarrow> options \<Rightarrow> bool \<Rightarrow> error + resolved" where
  "startOrFetch e options ns =
     (if \<not> truthy (storybookUrl options) then
        (case startStorybook e options ns of
           Inl err \<Rightarrow> Inl err
         | Inr l \<Rightarrow>
             (case finalizeUrl (JStr (localUrl (l_https l) (l_port l))) of
                Inl err \<Rightarrow> Inl err
              | Inr u \<Rightarrow>
                  Inr \<lparr> opts = options\<lparr>noStart := ns, https := l_https l,
                                        scriptName := l_scriptName l\<rparr>,
                        url = Some u, notices = l_notices l \<rparr>))
      else
        (case finalizeUrl (storybookUrl options) of
           Inl err \<Rightarrow> Inl err
         | Inr u \<Rightarrow>
             Inr \<lparr> opts = options\<lparr>noStart := ns, https := callerHttps options\<rparr>,
                   url = Some u, notices = [] \<rparr>))"

text \<open>Lines 75 to 134, then the rest: the checks in the order of the source.\<close>

definition resolve :: "env \<Rightarrow> flags \<Rightarrow> options \<Rightarrow> error + resolved" where
  "resolve e f options =
     (if \<not> truthy (projectToken options) then Inl MissingProjectToken
      else if truthy (fl_patchBuild f) \<and>
              (\<not> truthy (patchHeadRef options) \<or> \<not> truthy (patchBaseRef options))
        then Inl InvalidPatchBuild
      else if truthy (fl_patchBuild f) \<and> patchHeadRef options = patchBaseRef options
        then Inl DuplicatePatchBuild
      else if length (foundSingularOpts options) > 1
        then Inl (InvalidSingularOptions (map labelOf (foundSingularOpts options)))
      else
        (let ns = (noStart options \<or> truthy (storybookUrl options)) in
         if ns \<and> truthy (exitOnceUploaded options) then Inl InvalidExitOnceUploaded
         else if truthy (scriptName options) \<and> truthy (exitOnceUploaded options)
           then Inl InvalidExitOnceUploaded
         else if \<not> truthy (scriptName options) \<and> \<not> truthy (exec options) \<and> \<not> ns \<and>
                 \<not> truthy (storybookUrl options) \<and> \<not> truthy (port options)
           then buildStorybook e options
         else startOrFetch e options ns))"

text \<open>\<^verbatim>\<open>export default async function getOptions({ flags, argv, log })\<close>\<close>

definition getOptions :: "env \<Rightarrow> flags \<Rightarrow> string list \<Rightarrow> error + resolved" where
  "getOptions e f argv =
     (case mkOptions e f argv of Inl err \<Rightarrow> Inl err | Inr options \<Rightarrow> resolve e f options)"

section \<open>Sample inputs\<close>

text \<open>No flag given at all.\<close>

definition noFlags :: flags where
  "noFlags =
     \<lparr> fl_patchBuild = Undefined, fl_projectToken = Undefined, fl_appCode = Undefined,
       fl_config = Undefined, fl_only = Undefined, fl_list = Undefined, fl_ci = Undefined,
       fl_skip = Undefined, fl_debug = Undefined, fl_interactive = Undefined,
       fl_autoAcceptChanges = Undefined, fl_exitZeroOnChanges = Undefined,
       fl_exitOnceUploaded = Undefined, fl_ignoreLastBuildOnBranch = Undefined,
       fl_preserveMissing = Undefined, fl_buildScriptName = Undefined,
       fl_allowConsoleErrors = Undefined, fl_scriptName = Undefined, fl_exec = Undefined,
       fl_doNotStart = Undefined, fl_storybookHttps = Undefined,
       fl_storybookCert = Undefined, fl_storybookKey = Undefined,
       fl_storybookCa = Undefined, fl_storybookPort = Undefined,
       fl_storybookUrl = Undefined, fl_storybookBuildDir = Undefined \<rparr>"

text \<open>An environment with a default token and a manifest with the given scripts.\<close>

definition envWith :: "(string \<rightharpoonup> string) \<Rightarrow> env" where
  "envWith m =
     \<lparr> CHROMATIC_PROJECT_TOKEN = JStr ''tok'', CHROMATIC_CREATE_TUNNEL = Undefined,
       CHROMATIC_INDEX_URL = Undefined, CHROMATIC_TUNNEL_URL = Undefined,
       HOME = Some ''/home/u'', cwd = ''/work'', scripts = Some m, hasLog = True \<rparr>"

section \<open>The checks of lines 75 to 122 as predicates\<close>

text \<open>Line 75 does not raise.\<close>

definition tokenOk :: "options \<Rightarrow> bool" where
  "tokenOk options = truthy (projectToken options)"

text \<open>Lines 79 to 86 do not raise.\<close>

definition patchOk :: "flags \<Rightarrow> options \<Rightarrow> bool" where
  "patchOk f options =
     (\<not> truthy (fl_patchBuild f) \<or>
      (truthy (patchHeadRef options) \<and> truthy (patchBaseRef options) \<and>
       patchHeadRef options \<noteq> patchBaseRef options))"

text \<open>Line 107 does not raise.\<close>

definition singularOk :: "options \<Rightarrow> bool" where
  "singularOk options = (length (foundSingularOpts options) \<le> 1)"

text \<open>Lines 116 to 122 do not raise.\<close>

definition exitOk :: "options \<Rightarrow> bool" where
  "exitOk options =
     (\<not> (truthy (exitOnceUploaded options) \<and>
         (noStart options \<or> truthy (storybookUrl options) \<or> truthy (scriptName options))))"

text \<open>
  Whether the record of lines 29 to 73 is not built: the split of line 29 is called
  on a truthy \<^verbatim>\<open>patchBuild\<close> that is not a string, or \<^verbatim>\<open>path.resolve\<close> of line 61 is
  given a build directory that is not a string.
\<close>

definition recordRaises :: "flags \<Rightarrow> bool" where
  "recordRaises f =
     ((truthy (fl_patchBuild f) \<and>
       (case fl_patchBuild f of JStr s \<Rightarrow> False | _ \<Rightarrow> True)) \<or>
      (truthy (fl_storybookBuildDir f) \<and>
       (case (case fl_storybookBuildDir f of
                JArr xs \<Rightarrow> (if xs = [] then Undefined else hd xs)
              | _ \<Rightarrow> fl_storybookBuildDir f) of
          JStr p \<Rightarrow> False | _ \<Rightarrow> True)))"

section \<open>Which errors each part can raise\<close>

lemma mkOptions_Inr:
  assumes "mkOptions e f argv = Inr options"
  obtains refs dir where "patchRefs (fl_patchBuild f) = Inr refs"
    and "resolveBuildDir (cwd e) (fl_storybookBuildDir f) = Inr dir"
    and "options = optionsRecord e f argv refs dir"
  using assms by (auto simp: mkOptions_def split: sum.splits)

lemma getOptions_resolve:
  "mkOptions e f argv = Inr options \<Longrightarrow> getOptions e f argv = resolve e f options"
  by (simp add: getOptions_def)

lemma finalizeUrl_err: "finalizeUrl v = Inl err \<Longrightarrow> err = TypeError"
  by (auto simp: finalizeUrl_def split: jsval.splits option.splits)

lemma resolveHomeDir_err: "resolveHomeDir h v = Inl err \<Longrightarrow> err = TypeError"
  by (cases v) (auto split: if_splits option.splits)

lemma inferHttps_err: "inferHttps e h s = Inl err \<Longrightarrow> err = TypeError"
  by (auto simp: inferHttps_def split: if_splits sum.splits dest: resolveHomeDir_err)

lemma startStorybook_err:
  "startStorybook e options ns = Inl err \<Longrightarrow>
     err = MissingStorybookPort \<or> err = TypeError \<or>
     (\<exists>n. err = MissingScriptName n) \<or> (\<exists>n. err = UnknownStorybookPort n)"
  by (auto simp: startStorybook_def Let_def split: if_splits jsval.splits sum.splits
      dest: inferHttps_err)

lemma startOrFetch_err:
  "startOrFetch e options ns = Inl err \<Longrightarrow>
     err = MissingStorybookPort \<or> err = TypeError \<or>
     (\<exists>n. err = MissingScriptName n) \<or> (\<exists>n. err = UnknownStorybookPort n)"
  by (auto simp: startOrFetch_def split: if_splits sum.splits
      dest: finalizeUrl_err startStorybook_err)

lemma buildStorybook_err:
  "buildStorybook e options = Inl err \<Longrightarrow> \<exists>n. err = MissingBuildScriptName n"
  by (auto simp: buildStorybook_def Let_def split: if_splits)

lemma resolve_token:
  "resolve e f options = Inl MissingProjectToken \<longleftrightarrow> \<not> truthy (projectToken options)"
  by (auto simp: resolve_def Let_def split: if_splits
      dest: buildStorybook_err startOrFetch_err)

lemma takeLast_falsy: "\<not> truthy v \<Longrightarrow> takeLast v = v"
  by (cases v) auto

lemma projectToken_mkOptions:
  "mkOptions e f argv = Inr options \<Longrightarrow>
   projectToken options =
     js_or (takeLast (js_or (fl_projectToken f) (fl_appCode f))) (CHROMATIC_PROJECT_TOKEN e)"
  by (erule mkOptions_Inr) (simp add: optionsRecord_def)

lemma mkOptions_noFlags:
  "fl_patchBuild f = Undefined \<Longrightarrow> fl_storybookBuildDir f = Undefined \<Longrightarrow>
   mkOptions e f argv = Inr (optionsRecord e f argv [] Undefined)"
  by (simp add: mkOptions_def patchRefs_def resolveBuildDir_def)

section \<open>The project token\<close>

lemma mkOptions_raises: "recordRaises f \<Longrightarrow> mkOptions e f argv = Inl TypeError"
  by (auto simp: recordRaises_def mkOptions_def patchRefs_def resolveBuildDir_def
      split: sum.splits jsval.splits if_splits)

lemma mkOptions_builds: "\<not> recordRaises f \<Longrightarrow> \<exists>options. mkOptions e f argv = Inr options"
  by (auto simp: recordRaises_def mkOptions_def patchRefs_def resolveBuildDir_def
      split: sum.splits jsval.splits if_splits)

lemma truthy_takeLast: "truthy (takeLast v) \<Longrightarrow> truthy v"
  by (cases v) auto

text \<open>
  Two inputs against C1, both without an environment default token. The
  \<^verbatim>\<open>projectToken\<close> flag is given twice, the second time empty, and the \<^verbatim>\<open>appCode\<close>
  flag holds a token: line 32 takes the repeated flag, its last occurrence is empty,
  and \<^verbatim>\<open>appCode\<close> is not looked at. No token at all and \<^verbatim>\<open>patchBuild\<close> given as a
  boolean: line 29 raises before the token is checked.
\<close>

theorem C1_counterexample:
  "getOptions ((envWith Map.empty)\<lparr>CHROMATIC_PROJECT_TOKEN := Undefined\<rparr>)
     (noFlags\<lparr>fl_projectToken := JArr [JStr ''abc'', JStr []],
              fl_appCode := JStr ''code''\<rparr>) []
     = Inl MissingProjectToken
   \<and> getOptions ((envWith Map.empty)\<lparr>CHROMATIC_PROJECT_TOKEN := Undefined\<rparr>)
       (noFlags\<lparr>fl_patchBuild := JBool True\<rparr>) []
     = Inl TypeError"
proof -
  let ?e = "(envWith Map.empty)\<lparr>CHROMATIC_PROJECT_TOKEN := Undefined\<rparr>"
  let ?fa = "noFlags\<lparr>fl_projectToken := JArr [JStr ''abc'', JStr []],
                    fl_appCode := JStr ''code''\<rparr>"
  let ?fb = "noFlags\<lparr>fl_patchBuild := JBool True\<rparr>"
  have m: "mkOptions ?e ?fa [] = Inr (optionsRecord ?e ?fa [] [] Undefined)"
    by (rule mkOptions_noFlags) (simp_all add: noFlags_def)
  have "\<not> truthy (projectToken (optionsRecord ?e ?fa [] [] Undefined))"
    by (simp add: optionsRecord_def envWith_def js_or_def)
  then have "getOptions ?e ?fa [] = Inl MissingProjectToken"
    by (simp add: getOptions_resolve [OF m] resolve_token)
  moreover have "getOptions ?e ?fb [] = Inl TypeError"
    by (simp add: getOptions_def mkOptions_def patchRefs_def)
  ultimately show ?thesis by (rule conjI)
qed

text \<open>
  C1, as amended. When line 29 or line 61 raises, resolution ends in a TypeError
  before the token is looked at. Otherwise the record is built, and its token
  decides the check of line 75: resolution fails with \<open>MissingProjectToken\<close> exactly
  when the token is falsy. The token is the last occurrence of the \<^verbatim>\<open>projectToken\<close>
  flag if that is truthy; the environment default if the flag is truthy (given
  several times) but its last occurrence is not; the last occurrence of the
  \<^verbatim>\<open>appCode\<close> flag if \<^verbatim>\<open>projectToken\<close> is falsy and that is truthy; and the
  environment default otherwise. So with all three sources falsy resolution fails
  with \<open>MissingProjectToken\<close>.
\<close>

theorem C1_project_token_chain:
  "(recordRaises f \<longrightarrow> getOptions e f argv = Inl TypeError)
   \<and> (\<not> recordRaises f \<longrightarrow> (\<exists>options. mkOptions e f argv = Inr options))
   \<and> (\<forall>options. mkOptions e f argv = Inr options \<longrightarrow>
         (getOptions e f argv = Inl MissingProjectToken
            \<longleftrightarrow> \<not> truthy (projectToken options))
       \<and> (truthy (takeLast (fl_projectToken f))
            \<longrightarrow> projectToken options = takeLast (fl_projectToken f))
       \<and> (truthy (fl_projectToken f) \<and> \<not> truthy (takeLast (fl_projectToken f))
            \<longrightarrow> projectToken options = CHROMATIC_PROJECT_TOKEN e)
       \<and> (\<not> truthy (fl_projectToken f) \<and> truthy (takeLast (fl_appCode f))
            \<longrightarrow> projectToken options = takeLast (fl_appCode f))
       \<and> (\<not> truthy (fl_projectToken f) \<and> \<not> truthy (takeLast (fl_appCode f))
            \<longrightarrow> projectToken options = CHROMATIC_PROJECT_TOKEN e))
   \<and> (\<not> recordRaises f \<and> \<not> truthy (fl_projectToken f) \<and> \<not> truthy (fl_appCode f) \<and>
      \<not> truthy (CHROMATIC_PROJECT_TOKEN e)
        \<longrightarrow> getOptions e f argv = Inl MissingProjectToken)"
proof -
  have a: "recordRaises f \<longrightarrow> getOptions e f argv = Inl TypeError"
    by (simp add: getOptions_def mkOptions_raises)
  have b: "\<not> recordRaises f \<longrightarrow> (\<exists>options. mkOptions e f argv = Inr options)"
    using mkOptions_builds by blast
  have c: "(getOptions e f argv = Inl MissingProjectToken
            \<longleftrightarrow> \<not> truthy (projectToken options))
       \<and> (truthy (takeLast (fl_projectToken f))
            \<longrightarrow> projectToken options = takeLast (fl_projectToken f))
       \<and> (truthy (fl_projectToken f) \<and> \<not> truthy (takeLast (fl_projectToken f))
            \<longrightarrow> projectToken options = CHROMATIC_PROJECT_TOKEN e)
       \<and> (\<not> truthy (fl_projectToken f) \<and> truthy (takeLast (fl_appCode f))
            \<longrightarrow> projectToken options = takeLast (fl_appCode f))
       \<and> (\<not> truthy (fl_projectToken f) \<and> \<not> truthy (takeLast (fl_appCode f))
            \<longrightarrow> projectToken options = CHROMATIC_PROJECT_TOKEN e)"
    if m: "mkOptions e f argv = Inr options" for options
    using truthy_takeLast [of "fl_projectToken f"]
    by (auto simp: getOptions_resolve [OF m] resolve_token projectToken_mkOptions [OF m]
        js_or_def)
  have d: "\<not> recordRaises f \<and> \<not> truthy (fl_projectToken f) \<and> \<not> truthy (fl_appCode f) \<and>
      \<not> truthy (CHROMATIC_PROJECT_TOKEN e)
        \<longrightarrow> getOptions e f argv = Inl MissingProjectToken"
  proof
    assume h: "\<not> recordRaises f \<and> \<not> truthy (fl_projectToken f) \<and> \<not> truthy (fl_appCode f) \<and>
      \<not> truthy (CHROMATIC_PROJECT_TOKEN e)"
    then obtain options where m: "mkOptions e f argv = Inr options"
      using mkOptions_builds by blast
    have "\<not> truthy (takeLast (fl_appCode f))"
      using h by (simp add: takeLast_falsy)
    then show "getOptions e f argv = Inl MissingProjectToken"
      using c [OF m] h by simp
  qed
  from a b c d show ?thesis by blast
qed


theorem C1_project_token_chain_witness:
  "getOptions ((envWith Map.empty)\<lparr>CHROMATIC_PROJECT_TOKEN := Undefined\<rparr>) noFlags []
     = Inl MissingProjectToken
   \<and> getOptions (envWith Map.empty) (noFlags\<lparr>fl_storybookBuildDir := JBool True\<rparr>) []
     = Inl TypeError
   \<and> projectToken (optionsRecord (envWith Map.empty)
        (noFlags\<lparr>fl_projectToken := JArr [JStr ''first'', JStr ''second''],
                 fl_appCode := JStr ''code''\<rparr>) [] [] Undefined) = JStr ''second''
   \<and> projectToken (optionsRecord (envWith Map.empty)
        (noFlags\<lparr>fl_projectToken := JArr [JStr ''first'', JStr []],
                 fl_appCode := JStr ''code''\<rparr>) [] [] Undefined) = JStr ''tok''
   \<and> projectToken (optionsRecord (envWith Map.empty)
        (noFlags\<lparr>fl_appCode := JStr ''code''\<rparr>) [] [] Undefined) = JStr ''code''
   \<and> projectToken (optionsRecord (envWith Map.empty) noFlags [] [] Undefined) = JStr ''tok''
   \<and> getOptions (envWith Map.empty) noFlags [] \<noteq> Inl MissingProjectToken"
proof -
  let ?e = "envWith Map.empty"
  let ?bare = "(envWith Map.empty)\<lparr>CHROMATIC_PROJECT_TOKEN := Undefined\<rparr>"
  let ?fa = "noFlags\<lparr>fl_projectToken := JArr [JStr ''first'', JStr ''second''],
                     fl_appCode := JStr ''code''\<rparr>"
  let ?fb = "noFlags\<lparr>fl_appCode := JStr ''code''\<rparr>"
  let ?fc = "noFlags\<lparr>fl_projectToken := JArr [JStr ''first'', JStr []],
                     fl_appCode := JStr ''code''\<rparr>"
  let ?fd = "noFlags\<lparr>fl_storybookBuildDir := JBool True\<rparr>"
  have m1: "mkOptions ?e ?fa [] = Inr (optionsRecord ?e ?fa [] [] Undefined)"
    by (rule mkOptions_noFlags) (simp_all add: noFlags_def)
  have m2: "mkOptions ?e ?fb [] = Inr (optionsRecord ?e ?fb [] [] Undefined)"
    by (rule mkOptions_noFlags) (simp_all add: noFlags_def)
  have m3: "mkOptions ?e noFlags [] = Inr (optionsRecord ?e noFlags [] [] Undefined)"
    by (rule mkOptions_noFlags) (simp_all add: noFlags_def)
  have m4: "mkOptions ?e ?fc [] = Inr (optionsRecord ?e ?fc [] [] Undefined)"
    by (rule mkOptions_noFlags) (simp_all add: noFlags_def)
  have p0: "\<not> recordRaises noFlags \<and> \<not> truthy (fl_projectToken noFlags) \<and>
      \<not> truthy (fl_appCode noFlags) \<and> \<not> truthy (CHROMATIC_PROJECT_TOKEN ?bare)"
    by (simp add: noFlags_def envWith_def recordRaises_def)
  have p1: "truthy (takeLast (fl_projectToken ?fa)) \<and>
      takeLast (fl_projectToken ?fa) = JStr ''second''"
    by simp
  have p2: "\<not> truthy (fl_projectToken ?fb) \<and> truthy (takeLast (fl_appCode ?fb)) \<and>
      takeLast (fl_appCode ?fb) = JStr ''code''"
    by (simp add: noFlags_def)
  have p3: "\<not> truthy (fl_projectToken noFlags) \<and> \<not> truthy (takeLast (fl_appCode noFlags)) \<and>
      CHROMATIC_PROJECT_TOKEN ?e = JStr ''tok'' \<and> truthy (JStr ''tok'')"
    by (simp add: noFlags_def envWith_def)
  have p4: "truthy (fl_projectToken ?fc) \<and> \<not> truthy (takeLast (fl_projectToken ?fc))"
    by simp
  have p5: "recordRaises ?fd"
    by (simp add: recordRaises_def)
  have "getOptions ?bare noFlags [] = Inl MissingProjectToken"
    using C1_project_token_chain [of noFlags ?bare "[]"] p0 by blast
  moreover have "getOptions ?e ?fd [] = Inl TypeError"
    using C1_project_token_chain [of ?fd ?e "[]"] p5 by blast
  moreover have "projectToken (optionsRecord ?e ?fa [] [] Undefined) = JStr ''second''"
    using C1_project_token_chain [of ?fa ?e "[]"] m1 p1 by metis
  moreover have "projectToken (optionsRecord ?e ?fc [] [] Undefined) = JStr ''tok''"
    using C1_project_token_chain [of ?fc ?e "[]"] m4 p4 p3 by metis
  moreover have "projectToken (optionsRecord ?e ?fb [] [] Undefined) = JStr ''code''"
    using C1_project_token_chain [of ?fb ?e "[]"] m2 p2 by metis
  moreover have "projectToken (optionsRecord ?e noFlags [] [] Undefined) = JStr ''tok''
      \<and> getOptions ?e noFlags [] \<noteq> Inl MissingProjectToken"
    using C1_project_token_chain [of noFlags ?e "[]"] m3 p3 by metis
  ultimately show ?thesis by blast
qed

section \<open>The patch build refs\<close>

lemma mkOptions_err: "mkOptions e f argv = Inl err \<Longrightarrow> err = TypeError"
  by (auto simp: mkOptions_def patchRefs_def resolveBuildDir_def
      split: sum.splits if_splits jsval.splits)

lemma resolve_invalid_patch:
  "resolve e f options = Inl InvalidPatchBuild \<longleftrightarrow>
     truthy (projectToken options) \<and> truthy (fl_patchBuild f) \<and>
     (\<not> truthy (patchHeadRef options) \<or> \<not> truthy (patchBaseRef options))"
  by (auto simp: resolve_def Let_def split: if_splits
      dest: buildStorybook_err startOrFetch_err)

lemma resolve_duplicate_patch:
  "resolve e f options = Inl DuplicatePatchBuild \<longleftrightarrow>
     truthy (projectToken options) \<and> truthy (fl_patchBuild f) \<and>
     truthy (patchHeadRef options) \<and> truthy (patchBaseRef options) \<and>
     patchHeadRef options = patchBaseRef options"
  by (auto simp: resolve_def Let_def split: if_splits
      dest: buildStorybook_err startOrFetch_err)

lemma patchRefs_mkOptions:
  "mkOptions e f argv = Inr options \<Longrightarrow> fl_patchBuild f = JStr s \<Longrightarrow>
   patchHeadRef options = nthRef (filter (\<lambda>x. x \<noteq> []) (splitDots [] s)) 0 \<and>
   patchBaseRef options = nthRef (filter (\<lambda>x. x \<noteq> []) (splitDots [] s)) 1"
  by (erule mkOptions_Inr) (auto simp: optionsRecord_def patchRefs_def split: if_splits)

lemma truthy_nthRef:
  "truthy (nthRef (filter (\<lambda>x. x \<noteq> []) xs) i) \<longleftrightarrow> i < length (filter (\<lambda>x. x \<noteq> []) xs)"
proof -
  have "i < length (filter (\<lambda>x. x \<noteq> []) xs) \<Longrightarrow> filter (\<lambda>x. x \<noteq> []) xs ! i \<noteq> []"
    using nth_mem [of i "filter (\<lambda>x. x \<noteq> []) xs"] by auto
  then show ?thesis by (auto simp: nthRef_def)
qed

lemma splitDots_nodots:
  "CHR ''.'' \<notin> set s \<Longrightarrow> splitDots acc s = [rev acc @ s]"
  by (induction s arbitrary: acc) auto

lemma splitDots_sep:
  "CHR ''.'' \<notin> set a \<Longrightarrow> splitDots acc (a @ ''...'' @ b) = (rev acc @ a) # splitDots [] b"
  by (induction a arbitrary: acc) auto

text \<open>
  C2. Let the token be present and \<^verbatim>\<open>patchBuild\<close> be a non-empty string \<open>s\<close>, and
  let \<open>refs\<close> be the non-empty pieces of \<open>s\<close> split at \<^verbatim>\<open>...\<close>. With fewer than
  two refs resolution fails with \<open>InvalidPatchBuild\<close> (so for every \<open>s\<close> without a
  dot); with two refs of which the first two are equal it fails with
  \<open>DuplicatePatchBuild\<close> (so for \<^verbatim>\<open>a...a\<close>); otherwise it raises neither. When
  \<^verbatim>\<open>patchBuild\<close> is falsy, neither error is raised.
\<close>

theorem C2_patch_build:
  "(fl_patchBuild f = JStr s \<and> s \<noteq> [] \<and> mkOptions e f argv = Inr options \<and>
    truthy (projectToken options) \<longrightarrow>
      (length (filter (\<lambda>x. x \<noteq> []) (splitDots [] s)) < 2
         \<longrightarrow> getOptions e f argv = Inl InvalidPatchBuild) \<and>
      (2 \<le> length (filter (\<lambda>x. x \<noteq> []) (splitDots [] s)) \<and>
       filter (\<lambda>x. x \<noteq> []) (splitDots [] s) ! 0 = filter (\<lambda>x. x \<noteq> []) (splitDots [] s) ! 1
         \<longrightarrow> getOptions e f argv = Inl DuplicatePatchBuild) \<and>
      (2 \<le> length (filter (\<lambda>x. x \<noteq> []) (splitDots [] s)) \<and>
       filter (\<lambda>x. x \<noteq> []) (splitDots [] s) ! 0 \<noteq> filter (\<lambda>x. x \<noteq> []) (splitDots [] s) ! 1
         \<longrightarrow> getOptions e f argv \<noteq> Inl InvalidPatchBuild \<and>
             getOptions e f argv \<noteq> Inl DuplicatePatchBuild) \<and>
      (CHR ''.'' \<notin> set s \<longrightarrow> getOptions e f argv = Inl InvalidPatchBuild) \<and>
      (\<forall>a. a \<noteq> [] \<and> CHR ''.'' \<notin> set a \<and> s = a @ ''...'' @ a
         \<longrightarrow> getOptions e f argv = Inl DuplicatePatchBuild))
   \<and> (\<not> truthy (fl_patchBuild f) \<longrightarrow>
         getOptions e f argv \<noteq> Inl InvalidPatchBuild \<and>
         getOptions e f argv \<noteq> Inl DuplicatePatchBuild)"
proof -
  let ?refs = "filter (\<lambda>x. x \<noteq> []) (splitDots [] s)"
  have absent: "getOptions e f argv \<noteq> Inl InvalidPatchBuild \<and>
      getOptions e f argv \<noteq> Inl DuplicatePatchBuild" if "\<not> truthy (fl_patchBuild f)"
    using that
    by (auto simp: getOptions_def resolve_invalid_patch resolve_duplicate_patch
        split: sum.splits dest: mkOptions_err)
  have present: "(getOptions e f argv = Inl InvalidPatchBuild \<longleftrightarrow> length ?refs < 2) \<and>
      (getOptions e f argv = Inl DuplicatePatchBuild \<longleftrightarrow>
         2 \<le> length ?refs \<and> ?refs ! 0 = ?refs ! 1)"
    if a: "fl_patchBuild f = JStr s" "s \<noteq> []" "mkOptions e f argv = Inr options"
      "truthy (projectToken options)"
  proof -
    have g: "getOptions e f argv = resolve e f options"
      using a by (simp add: getOptions_resolve)
    have hd: "patchHeadRef options = nthRef ?refs 0"
      and bs: "patchBaseRef options = nthRef ?refs 1"
      using a patchRefs_mkOptions by blast+
    have t: "truthy (fl_patchBuild f)" using a by simp
    show ?thesis
      unfolding g resolve_invalid_patch resolve_duplicate_patch hd bs truthy_nthRef
      using a t by (auto simp: nthRef_def)
  qed
  have nodots: "length ?refs < 2" if "CHR ''.'' \<notin> set s"
    using that by (simp add: splitDots_nodots)
  have same: "2 \<le> length ?refs \<and> ?refs ! 0 = ?refs ! 1"
    if "a \<noteq> []" "CHR ''.'' \<notin> set a" "s = a @ ''...'' @ a" for a
    using that splitDots_sep [of a "[]" a] by (simp add: splitDots_nodots)
  have big: "(length ?refs < 2 \<longrightarrow> getOptions e f argv = Inl InvalidPatchBuild) \<and>
      (2 \<le> length ?refs \<and> ?refs ! 0 = ?refs ! 1
         \<longrightarrow> getOptions e f argv = Inl DuplicatePatchBuild) \<and>
      (2 \<le> length ?refs \<and> ?refs ! 0 \<noteq> ?refs ! 1
         \<longrightarrow> getOptions e f argv \<noteq> Inl InvalidPatchBuild \<and>
             getOptions e f argv \<noteq> Inl DuplicatePatchBuild) \<and>
      (CHR ''.'' \<notin> set s \<longrightarrow> getOptions e f argv = Inl InvalidPatchBuild) \<and>
      (\<forall>a. a \<noteq> [] \<and> CHR ''.'' \<notin> set a \<and> s = a @ ''...'' @ a
         \<longrightarrow> getOptions e f argv = Inl DuplicatePatchBuild)"
    if a: "fl_patchBuild f = JStr s \<and> s \<noteq> [] \<and> mkOptions e f argv = Inr options \<and>
      truthy (projectToken options)"
  proof -
    from a present
    have inv: "getOptions e f argv = Inl InvalidPatchBuild \<longleftrightarrow> length ?refs < 2"
      and dup: "getOptions e f argv = Inl DuplicatePatchBuild \<longleftrightarrow>
         2 \<le> length ?refs \<and> ?refs ! 0 = ?refs ! 1"
      by simp_all
    have c1: "length ?refs < 2 \<longrightarrow> getOptions e f argv = Inl InvalidPatchBuild"
      using inv by simp
    have c2: "2 \<le> length ?refs \<and> ?refs ! 0 = ?refs ! 1
         \<longrightarrow> getOptions e f argv = Inl DuplicatePatchBuild"
      using dup by simp
    have c3: "2 \<le> length ?refs \<and> ?refs ! 0 \<noteq> ?refs ! 1
         \<longrightarrow> getOptions e f argv \<noteq> Inl InvalidPatchBuild \<and>
             getOptions e f argv \<noteq> Inl DuplicatePatchBuild"
      using inv dup by simp
    have c4: "CHR ''.'' \<notin> set s \<longrightarrow> getOptions e f argv = Inl InvalidPatchBuild"
      using inv nodots by simp
    have c5: "\<forall>a. a \<noteq> [] \<and> CHR ''.'' \<notin> set a \<and> s = a @ ''...'' @ a
         \<longrightarrow> getOptions e f argv = Inl DuplicatePatchBuild"
      using dup same by blast
    from c1 c2 c3 c4 c5 show ?thesis by (intro conjI)
  qed
  show ?thesis
    by (rule conjI; rule impI) (erule big, erule absent)
qed


lemma mkOptions_patch:
  "fl_patchBuild f = JStr s \<Longrightarrow> s \<noteq> [] \<Longrightarrow> fl_storybookBuildDir f = Undefined \<Longrightarrow>
   mkOptions e f argv =
     Inr (optionsRecord e f argv (filter (\<lambda>x. x \<noteq> []) (splitDots [] s)) Undefined)"
  by (simp add: mkOptions_def patchRefs_def resolveBuildDir_def)

lemma projectToken_envWith:
  "fl_projectToken f = Undefined \<Longrightarrow> fl_appCode f = Undefined \<Longrightarrow>
   truthy (projectToken (optionsRecord (envWith m) f argv refs dir))"
  by (simp add: optionsRecord_def envWith_def js_or_def)

theorem C2_patch_build_witness:
  "getOptions (envWith Map.empty) (noFlags\<lparr>fl_patchBuild := JStr ''a...a''\<rparr>) []
     = Inl DuplicatePatchBuild
   \<and> getOptions (envWith Map.empty) (noFlags\<lparr>fl_patchBuild := JStr ''a''\<rparr>) []
     = Inl InvalidPatchBuild
   \<and> getOptions (envWith Map.empty) noFlags [] \<noteq> Inl InvalidPatchBuild
   \<and> getOptions (envWith Map.empty) noFlags [] \<noteq> Inl DuplicatePatchBuild"
proof -
  let ?e = "envWith Map.empty"
  let ?fa = "noFlags\<lparr>fl_patchBuild := JStr ''a...a''\<rparr>"
  let ?fb = "noFlags\<lparr>fl_patchBuild := JStr ''a''\<rparr>"
  let ?oa = "optionsRecord ?e ?fa [] (filter (\<lambda>x. x \<noteq> []) (splitDots [] ''a...a'')) Undefined"
  let ?ob = "optionsRecord ?e ?fb [] (filter (\<lambda>x. x \<noteq> []) (splitDots [] ''a'')) Undefined"
  have pa: "fl_patchBuild ?fa = JStr ''a...a'' \<and> ''a...a'' \<noteq> [] \<and>
      mkOptions ?e ?fa [] = Inr ?oa \<and> truthy (projectToken ?oa)"
    by (simp add: mkOptions_patch projectToken_envWith noFlags_def)
  have pb: "fl_patchBuild ?fb = JStr ''a'' \<and> ''a'' \<noteq> [] \<and>
      mkOptions ?e ?fb [] = Inr ?ob \<and> truthy (projectToken ?ob)"
    by (simp add: mkOptions_patch projectToken_envWith noFlags_def)
  have ra: "2 \<le> length (filter (\<lambda>x. x \<noteq> []) (splitDots [] ''a...a'')) \<and>
      filter (\<lambda>x. x \<noteq> []) (splitDots [] ''a...a'') ! 0
        = filter (\<lambda>x. x \<noteq> []) (splitDots [] ''a...a'') ! 1"
    by simp
  have rb: "length (filter (\<lambda>x. x \<noteq> []) (splitDots [] ''a'')) < 2"
    by simp
  have pc: "\<not> truthy (fl_patchBuild noFlags)"
    by (simp add: noFlags_def)
  have "getOptions ?e ?fa [] = Inl DuplicatePatchBuild"
    using C2_patch_build [of ?fa "''a...a''" ?e "[]" ?oa] pa ra by blast
  moreover have "getOptions ?e ?fb [] = Inl InvalidPatchBuild"
    using C2_patch_build [of ?fb "''a''" ?e "[]" ?ob] pb rb by blast
  moreover have "getOptions ?e noFlags [] \<noteq> Inl InvalidPatchBuild \<and>
      getOptions ?e noFlags [] \<noteq> Inl DuplicatePatchBuild"
    using C2_patch_build [of noFlags "[]" ?e "[]"] pc by blast
  ultimately show ?thesis by blast
qed


section \<open>The singular selectors\<close>

lemma labels_found:
  "map labelOf (foundSingularOpts options) =
     (if truthy (buildScriptName options) then [''--build-script-name''] else []) @
     (if truthy (scriptName options) then [''--script-name''] else []) @
     (if truthy (exec options) then [''--exec''] else []) @
     (if truthy (storybookUrl options) then [''--storybook-url''] else []) @
     (if truthy (storybookBuildDir options) then [''--storybook-build-dir''] else [])"
  by (simp add: foundSingularOpts_def singularOpts_def optField_def labelOf_def)

lemma resolve_singular:
  "tokenOk options \<Longrightarrow> patchOk f options \<Longrightarrow>
   resolve e f options = Inl (InvalidSingularOptions ls) \<longleftrightarrow>
     1 < length (foundSingularOpts options) \<and> ls = map labelOf (foundSingularOpts options)"
  by (auto simp: resolve_def Let_def tokenOk_def patchOk_def split: if_splits
      dest: buildStorybook_err startOrFetch_err)

text \<open>
  C3. Let the token and patch-build checks pass. If two or more of the five singular
  selectors are truthy in the options record, resolution fails with
  \<open>InvalidSingularOptions\<close> carrying the label of every truthy selector, in the order
  \<^verbatim>\<open>--build-script-name\<close>, \<^verbatim>\<open>--script-name\<close>, \<^verbatim>\<open>--exec\<close>, \<^verbatim>\<open>--storybook-url\<close>,
  \<^verbatim>\<open>--storybook-build-dir\<close>; with at most one truthy selector it does not fail with
  \<open>InvalidSingularOptions\<close>.
\<close>

theorem C3_singular_options:
  assumes "mkOptions e f argv = Inr options" and "tokenOk options" and "patchOk f options"
  shows "(1 < length (filter truthy [buildScriptName options, scriptName options,
                exec options, storybookUrl options, storybookBuildDir options])
            \<longrightarrow> getOptions e f argv = Inl (InvalidSingularOptions
                 ((if truthy (buildScriptName options) then [''--build-script-name''] else []) @
                  (if truthy (scriptName options) then [''--script-name''] else []) @
                  (if truthy (exec options) then [''--exec''] else []) @
                  (if truthy (storybookUrl options) then [''--storybook-url''] else []) @
                  (if truthy (storybookBuildDir options)
                   then [''--storybook-build-dir''] else []))))
       \<and> (length (filter truthy [buildScriptName options, scriptName options,
                exec options, storybookUrl options, storybookBuildDir options]) \<le> 1
            \<longrightarrow> (\<forall>ls. getOptions e f argv \<noteq> Inl (InvalidSingularOptions ls)))"
proof -
  have n: "length (filter truthy [buildScriptName options, scriptName options,
                exec options, storybookUrl options, storybookBuildDir options])
      = length (foundSingularOpts options)"
    by (simp add: foundSingularOpts_def singularOpts_def optField_def)
  have g: "getOptions e f argv = resolve e f options"
    using assms(1) by (rule getOptions_resolve)
  show ?thesis
    unfolding n g resolve_singular [OF assms(2,3)] labels_found [symmetric]
    by auto
qed


theorem C3_singular_options_witness:
  "getOptions (envWith Map.empty)
     (noFlags\<lparr>fl_exec := JStr ''serve'', fl_storybookUrl := JStr ''http://localhost:6006'',
              fl_storybookBuildDir := JArr [JStr ''../out/./static'', JStr ''other'']\<rparr>) []
     = Inl (InvalidSingularOptions [''--exec'', ''--storybook-url'', ''--storybook-build-dir''])
   \<and> (\<forall>ls. getOptions (envWith Map.empty) (noFlags\<lparr>fl_exec := JStr ''serve''\<rparr>) []
          \<noteq> Inl (InvalidSingularOptions ls))"
proof -
  let ?e = "envWith Map.empty"
  let ?fa = "noFlags\<lparr>fl_exec := JStr ''serve'', fl_storybookUrl := JStr ''http://localhost:6006'',
              fl_storybookBuildDir := JArr [JStr ''../out/./static'', JStr ''other'']\<rparr>"
  let ?fb = "noFlags\<lparr>fl_exec := JStr ''serve''\<rparr>"
  let ?oa = "optionsRecord ?e ?fa [] [] (JStr ''/out/static'')"
  let ?ob = "optionsRecord ?e ?fb [] [] Undefined"
  have ma: "mkOptions ?e ?fa [] = Inr ?oa"
    by (simp add: mkOptions_def patchRefs_def resolveBuildDir_def noFlags_def envWith_def
        path_resolve_def)
  have mb: "mkOptions ?e ?fb [] = Inr ?ob"
    by (rule mkOptions_noFlags) (simp_all add: noFlags_def)
  have ta: "tokenOk ?oa" and pa: "patchOk ?fa ?oa"
    by (simp_all add: tokenOk_def patchOk_def projectToken_envWith noFlags_def)
  have tb: "tokenOk ?ob" and pb: "patchOk ?fb ?ob"
    by (simp_all add: tokenOk_def patchOk_def projectToken_envWith noFlags_def)
  have sa: "buildScriptName ?oa = Undefined \<and> scriptName ?oa = Undefined \<and>
      exec ?oa = JStr ''serve'' \<and> storybookUrl ?oa = JStr ''http://localhost:6006'' \<and>
      storybookBuildDir ?oa = JStr ''/out/static''"
    by (simp add: optionsRecord_def noFlags_def sentinel_def isEmptyStr_def)
  have sb: "buildScriptName ?ob = Undefined \<and> scriptName ?ob = Undefined \<and>
      exec ?ob = JStr ''serve'' \<and> storybookUrl ?ob = Undefined \<and>
      storybookBuildDir ?ob = Undefined"
    by (simp add: optionsRecord_def noFlags_def sentinel_def isEmptyStr_def)
  have "getOptions ?e ?fa []
     = Inl (InvalidSingularOptions [''--exec'', ''--storybook-url'', ''--storybook-build-dir''])"
    using C3_singular_options [OF ma ta pa] by (simp add: sa)
  moreover have "\<forall>ls. getOptions ?e ?fb [] \<noteq> Inl (InvalidSingularOptions ls)"
    using C3_singular_options [OF mb tb pb] by (simp add: sb)
  ultimately show ?thesis by blast
qed


section \<open>Fetching from a URL, and exiting once uploaded\<close>

lemma resolve_url_mode:
  assumes "tokenOk options" "patchOk f options" "singularOk options" "exitOk options"
    and "truthy (storybookUrl options)"
  shows "resolve e f options =
     (case finalizeUrl (storybookUrl options) of
        Inl err \<Rightarrow> Inl err
      | Inr u \<Rightarrow> Inr \<lparr> opts = options\<lparr>noStart := True, https := callerHttps options\<rparr>,
                       url = Some u, notices = [] \<rparr>)"
  using assms
  by (auto simp: resolve_def startOrFetch_def tokenOk_def patchOk_def singularOk_def
      exitOk_def Let_def)

lemma resolve_noStart_forced:
  "truthy (storybookUrl options) \<Longrightarrow> resolve e f options = Inr r \<Longrightarrow>
   noStart (opts r) \<and> storybookUrl (opts r) = storybookUrl options"
  by (auto simp: resolve_def startOrFetch_def Let_def split: if_splits sum.splits)

lemma resolve_exit_once_uploaded:
  "tokenOk options \<Longrightarrow> patchOk f options \<Longrightarrow> singularOk options \<Longrightarrow>
   truthy (exitOnceUploaded options) \<Longrightarrow>
   noStart options \<or> truthy (storybookUrl options) \<or> truthy (scriptName options) \<Longrightarrow>
   resolve e f options = Inl InvalidExitOnceUploaded"
  by (auto simp: resolve_def tokenOk_def patchOk_def singularOk_def Let_def)

lemma finalizeUrl_6006:
  "finalizeUrl (JStr ''http://localhost:6006'') = Inr ''http://localhost:6006/iframe.html''"
  by (simp add: finalizeUrl_def url_parse_def url_format_def splitProto_def protoChar_def
      lowerChar_def slashedProtocol_def hostlessProtocol_def hostEnding_def addSuffix_def
      endsWith_def orEmpty_def Let_def)

text \<open>
  C4. Whenever resolution returns a configuration for an input whose
  \<^verbatim>\<open>storybookUrl\<close> is truthy, that configuration has \<^verbatim>\<open>noStart = true\<close>, whatever
  \<^verbatim>\<open>doNotStart\<close> was. And when the checks before line 116 pass and
  \<^verbatim>\<open>exitOnceUploaded\<close> is truthy together with \<^verbatim>\<open>noStart\<close>, a truthy
  \<^verbatim>\<open>storybookUrl\<close> or a truthy \<^verbatim>\<open>scriptName\<close>, resolution fails with
  \<open>InvalidExitOnceUploaded\<close>.
\<close>

theorem C4_no_start_and_exit_once_uploaded:
  assumes "mkOptions e f argv = Inr options"
  shows "(\<forall>r. truthy (storybookUrl options) \<and> getOptions e f argv = Inr r
            \<longrightarrow> noStart (opts r))
       \<and> (tokenOk options \<and> patchOk f options \<and> singularOk options \<and>
          truthy (exitOnceUploaded options) \<and>
          (noStart options \<or> truthy (storybookUrl options) \<or> truthy (scriptName options))
            \<longrightarrow> getOptions e f argv = Inl InvalidExitOnceUploaded)"
  using resolve_noStart_forced [of options e f] resolve_exit_once_uploaded [of options f e]
  by (auto simp: getOptions_resolve [OF assms])


theorem C4_no_start_and_exit_once_uploaded_witness:
  "(\<exists>r. getOptions (envWith Map.empty)
          (noFlags\<lparr>fl_storybookUrl := JStr ''http://localhost:6006''\<rparr>) [] = Inr r
        \<and> noStart (opts r) \<and> url r = Some ''http://localhost:6006/iframe.html'')
   \<and> getOptions (envWith Map.empty)
         (noFlags\<lparr>fl_storybookUrl := JStr ''http://localhost:6006'',
                  fl_exitOnceUploaded := JStr []\<rparr>) [] = Inl InvalidExitOnceUploaded
   \<and> getOptions (envWith Map.empty)
         (noFlags\<lparr>fl_scriptName := JStr ''sb'', fl_exitOnceUploaded := JBool True\<rparr>) []
         = Inl InvalidExitOnceUploaded"
proof -
  let ?e = "envWith Map.empty"
  let ?fa = "noFlags\<lparr>fl_storybookUrl := JStr ''http://localhost:6006''\<rparr>"
  let ?fb = "noFlags\<lparr>fl_storybookUrl := JStr ''http://localhost:6006'',
                    fl_exitOnceUploaded := JStr []\<rparr>"
  let ?fc = "noFlags\<lparr>fl_scriptName := JStr ''sb'', fl_exitOnceUploaded := JBool True\<rparr>"
  let ?oa = "optionsRecord ?e ?fa [] [] Undefined"
  let ?ob = "optionsRecord ?e ?fb [] [] Undefined"
  let ?oc = "optionsRecord ?e ?fc [] [] Undefined"
  have ma: "mkOptions ?e ?fa [] = Inr ?oa"
    by (rule mkOptions_noFlags) (simp_all add: noFlags_def)
  have mb: "mkOptions ?e ?fb [] = Inr ?ob"
    by (rule mkOptions_noFlags) (simp_all add: noFlags_def)
  have mc: "mkOptions ?e ?fc [] = Inr ?oc"
    by (rule mkOptions_noFlags) (simp_all add: noFlags_def)
  have ca: "tokenOk ?oa \<and> patchOk ?fa ?oa \<and> singularOk ?oa \<and> exitOk ?oa \<and>
      truthy (storybookUrl ?oa) \<and> storybookUrl ?oa = JStr ''http://localhost:6006''"
    by (simp add: tokenOk_def patchOk_def singularOk_def exitOk_def foundSingularOpts_def
        singularOpts_def optField_def optionsRecord_def envWith_def noFlags_def js_or_def
        sentinel_def isEmptyStr_def)
  have cb: "tokenOk ?ob \<and> patchOk ?fb ?ob \<and> singularOk ?ob \<and>
      truthy (exitOnceUploaded ?ob) \<and> truthy (storybookUrl ?ob)"
    by (simp add: tokenOk_def patchOk_def singularOk_def foundSingularOpts_def
        singularOpts_def optField_def optionsRecord_def envWith_def noFlags_def js_or_def
        sentinel_def isEmptyStr_def)
  have cc: "tokenOk ?oc \<and> patchOk ?fc ?oc \<and> singularOk ?oc \<and>
      truthy (exitOnceUploaded ?oc) \<and> truthy (scriptName ?oc)"
    by (simp add: tokenOk_def patchOk_def singularOk_def foundSingularOpts_def
        singularOpts_def optField_def optionsRecord_def envWith_def noFlags_def js_or_def
        sentinel_def isEmptyStr_def)
  have ra: "getOptions ?e ?fa [] =
      Inr \<lparr> opts = ?oa\<lparr>noStart := True, https := callerHttps ?oa\<rparr>,
            url = Some ''http://localhost:6006/iframe.html'', notices = [] \<rparr>"
    using ca by (simp add: getOptions_resolve [OF ma] resolve_url_mode finalizeUrl_6006)
  have "\<exists>r. getOptions ?e ?fa [] = Inr r \<and> noStart (opts r) \<and>
      url r = Some ''http://localhost:6006/iframe.html''"
    using C4_no_start_and_exit_once_uploaded [OF ma] ca ra by simp
  moreover have "getOptions ?e ?fb [] = Inl InvalidExitOnceUploaded"
    using C4_no_start_and_exit_once_uploaded [OF mb] cb by blast
  moreover have "getOptions ?e ?fc [] = Inl InvalidExitOnceUploaded"
    using C4_no_start_and_exit_once_uploaded [OF mc] cc by blast
  ultimately show ?thesis by blast
qed


section \<open>Building Storybook\<close>

lemmas sample_defs =
  tokenOk_def patchOk_def singularOk_def exitOk_def foundSingularOpts_def singularOpts_def
  optField_def optionsRecord_def envWith_def noFlags_def js_or_def sentinel_def
  isEmptyStr_def

lemma truthy_inherited:
  "truthy (inherited name) \<longleftrightarrow> name \<in> set prototypeFunctions \<or> name = ''__proto__''"
  by (simp add: inherited_def)

lemma truthy_scriptOf:
  "truthy (scriptOf e name) \<longleftrightarrow>
     (\<exists>m. scripts e = Some m \<and>
        ((\<exists>cmd. m name = Some cmd \<and> cmd \<noteq> []) \<or>
         (m name = None \<and> (name \<in> set prototypeFunctions \<or> name = ''__proto__''))))"
  by (auto simp: scriptOf_def truthy_inherited split: option.splits)

lemma optionsRecord_scripts:
  "optionsRecord (e\<lparr>scripts := m\<rparr>) f argv refs dir = optionsRecord e f argv refs dir"
  by (simp add: optionsRecord_def)

lemma mkOptions_scripts: "mkOptions (e\<lparr>scripts := m\<rparr>) f argv = mkOptions e f argv"
  by (simp add: mkOptions_def optionsRecord_scripts split: sum.splits)

lemma resolve_build_mode:
  assumes "tokenOk options" "patchOk f options" "singularOk options"
    and "\<not> truthy (scriptName options)" "\<not> truthy (exec options)" "\<not> noStart options"
    and "\<not> truthy (storybookUrl options)" "\<not> truthy (port options)"
  shows "resolve e f options = buildStorybook e options"
  using assms
  by (auto simp: resolve_def tokenOk_def patchOk_def singularOk_def Let_def)

text \<open>
  Two inputs against C5, both with no flag but \<^verbatim>\<open>buildScriptName\<close>. A manifest whose
  scripts have the key \<^verbatim>\<open>build-storybook\<close> with an empty command: line 130 tests the
  value, not the key, and resolution fails. A manifest whose scripts have no key
  \<^verbatim>\<open>toString\<close>, and the flag \<^verbatim>\<open>--build-script-name toString\<close>: line 130 finds the
  inherited function, and resolution returns.
\<close>

theorem C5_counterexample:
  "getOptions (envWith [''build-storybook'' \<mapsto> []]) noFlags []
     = Inl (MissingBuildScriptName ''build-storybook'')
   \<and> getOptions (envWith Map.empty) (noFlags\<lparr>fl_buildScriptName := JStr ''toString''\<rparr>) []
     = Inr \<lparr> opts = (optionsRecord (envWith Map.empty)
                       (noFlags\<lparr>fl_buildScriptName := JStr ''toString''\<rparr>) [] [] Undefined)
                    \<lparr>noStart := True, buildScriptName := JStr ''toString''\<rparr>,
             url = None, notices = [] \<rparr>"
proof -
  let ?ea = "envWith [''build-storybook'' \<mapsto> []]"
  let ?eb = "envWith Map.empty"
  let ?fb = "noFlags\<lparr>fl_buildScriptName := JStr ''toString''\<rparr>"
  let ?oa = "optionsRecord ?ea noFlags [] [] Undefined"
  let ?ob = "optionsRecord ?eb ?fb [] [] Undefined"
  have ma: "mkOptions ?ea noFlags [] = Inr ?oa"
    by (rule mkOptions_noFlags) (simp_all add: noFlags_def)
  have mb: "mkOptions ?eb ?fb [] = Inr ?ob"
    by (rule mkOptions_noFlags) (simp_all add: noFlags_def)
  have ca: "tokenOk ?oa" "patchOk noFlags ?oa" "singularOk ?oa"
    "\<not> truthy (scriptName ?oa)" "\<not> truthy (exec ?oa)" "\<not> noStart ?oa"
    "\<not> truthy (storybookUrl ?oa)" "\<not> truthy (port ?oa)"
    by (simp_all add: sample_defs)
  have cb: "tokenOk ?ob" "patchOk ?fb ?ob" "singularOk ?ob"
    "\<not> truthy (scriptName ?ob)" "\<not> truthy (exec ?ob)" "\<not> noStart ?ob"
    "\<not> truthy (storybookUrl ?ob)" "\<not> truthy (port ?ob)"
    by (simp_all add: sample_defs)
  have va: "\<not> truthy (storybookBuildDir ?oa)" "buildScriptName ?oa = Undefined"
    and vb: "\<not> truthy (storybookBuildDir ?ob)" "buildScriptName ?ob = JStr ''toString''"
    by (simp_all add: sample_defs)
  have sa: "scriptOf ?ea ''build-storybook'' = JStr []"
    and sb: "scriptOf ?eb ''toString'' = JFun ''toString''"
    by (simp_all add: scriptOf_def envWith_def inherited_def prototypeFunctions_def)
  have "getOptions ?ea noFlags [] = Inl (MissingBuildScriptName ''build-storybook'')"
    by (simp add: getOptions_resolve [OF ma] resolve_build_mode [OF ca] buildStorybook_def
        va sa)
  moreover have "getOptions ?eb ?fb []
     = Inr \<lparr> opts = ?ob\<lparr>noStart := True, buildScriptName := JStr ''toString''\<rparr>,
             url = None, notices = [] \<rparr>"
    by (simp add: getOptions_resolve [OF mb] resolve_build_mode [OF cb] buildStorybook_def
        vb sb Let_def)
  ultimately show ?thesis by (rule conjI)
qed

text \<open>
  C5, as amended. Let the checks before line 125 pass and \<^verbatim>\<open>scriptName\<close>,
  \<^verbatim>\<open>exec\<close>, \<^verbatim>\<open>noStart\<close>, \<^verbatim>\<open>storybookUrl\<close> and \<^verbatim>\<open>port\<close> be falsy. Without a build
  directory, the build script name is the \<^verbatim>\<open>buildScriptName\<close> flag if that is a
  string and \<^verbatim>\<open>build-storybook\<close> otherwise; if the manifest's scripts have that
  name as a key with a non-empty command, resolution returns the options with
  \<^verbatim>\<open>noStart = true\<close> and that \<^verbatim>\<open>buildScriptName\<close>; if the manifest has no scripts,
  or the key holds an empty command, or the name is neither a key nor a name that
  objects inherit, it fails with \<open>MissingBuildScriptName\<close> of that name. With a build
  directory, resolution returns the options with \<^verbatim>\<open>noStart = true\<close> whatever the
  manifest's scripts are.
\<close>

theorem C5_build_mode:
  assumes "mkOptions e f argv = Inr options"
    and "tokenOk options" and "patchOk f options" and "singularOk options"
    and "\<not> truthy (scriptName options)" and "\<not> truthy (exec options)"
    and "\<not> noStart options" and "\<not> truthy (storybookUrl options)"
    and "\<not> truthy (port options)"
  shows "(\<not> truthy (storybookBuildDir options) \<longrightarrow>
           (let name = (case fl_buildScriptName f of JStr n \<Rightarrow> n | _ \<Rightarrow> ''build-storybook'')
            in ((\<exists>m cmd. scripts e = Some m \<and> m name = Some cmd \<and> cmd \<noteq> []) \<longrightarrow>
                  getOptions e f argv =
                    Inr \<lparr> opts = options\<lparr>noStart := True, buildScriptName := JStr name\<rparr>,
                          url = None, notices = [] \<rparr>)
             \<and> (scripts e = None \<or>
                 (\<exists>m. scripts e = Some m \<and> m name = Some []) \<or>
                 (\<exists>m. scripts e = Some m \<and> m name = None \<and>
                      name \<notin> set prototypeFunctions \<and> name \<noteq> ''__proto__'') \<longrightarrow>
                  getOptions e f argv = Inl (MissingBuildScriptName name))))
       \<and> (truthy (storybookBuildDir options) \<longrightarrow>
           (\<forall>m. getOptions (e\<lparr>scripts := m\<rparr>) f argv =
                  Inr \<lparr> opts = options\<lparr>noStart := True\<rparr>, url = None, notices = [] \<rparr>))"
proof -
  have b: "buildScriptName options = fl_buildScriptName f"
    using assms(1) by (elim mkOptions_Inr) (simp add: optionsRecord_def)
  have g: "getOptions e f argv = buildStorybook e options"
    using assms by (simp add: getOptions_resolve resolve_build_mode)
  have g': "getOptions (e\<lparr>scripts := m\<rparr>) f argv = buildStorybook (e\<lparr>scripts := m\<rparr>) options"
    for m
    using assms by (simp add: getOptions_def mkOptions_scripts resolve_build_mode)
  have "truthy (storybookBuildDir options) \<longrightarrow>
      (\<forall>m. getOptions (e\<lparr>scripts := m\<rparr>) f argv =
                  Inr \<lparr> opts = options\<lparr>noStart := True\<rparr>, url = None, notices = [] \<rparr>)"
    by (simp add: g' buildStorybook_def)
  moreover have "\<not> truthy (storybookBuildDir options) \<longrightarrow>
           (let name = (case fl_buildScriptName f of JStr n \<Rightarrow> n | _ \<Rightarrow> ''build-storybook'')
            in ((\<exists>m cmd. scripts e = Some m \<and> m name = Some cmd \<and> cmd \<noteq> []) \<longrightarrow>
                  getOptions e f argv =
                    Inr \<lparr> opts = options\<lparr>noStart := True, buildScriptName := JStr name\<rparr>,
                          url = None, notices = [] \<rparr>)
             \<and> (scripts e = None \<or>
                 (\<exists>m. scripts e = Some m \<and> m name = Some []) \<or>
                 (\<exists>m. scripts e = Some m \<and> m name = None \<and>
                      name \<notin> set prototypeFunctions \<and> name \<noteq> ''__proto__'') \<longrightarrow>
                  getOptions e f argv = Inl (MissingBuildScriptName name)))"
    unfolding g buildStorybook_def b Let_def truthy_scriptOf by auto
  ultimately show ?thesis by (rule_tac conjI)
qed

theorem C5_build_mode_witness:
  "getOptions (envWith [''build-storybook'' \<mapsto> ''build-storybook -o out'']) noFlags []
     = Inr \<lparr> opts = (optionsRecord (envWith [''build-storybook'' \<mapsto> ''build-storybook -o out''])
                       noFlags [] [] Undefined)
                    \<lparr>noStart := True, buildScriptName := JStr ''build-storybook''\<rparr>,
             url = None, notices = [] \<rparr>
   \<and> getOptions (envWith Map.empty) (noFlags\<lparr>fl_buildScriptName := JStr ''bsb''\<rparr>) []
     = Inl (MissingBuildScriptName ''bsb'')
   \<and> getOptions ((envWith Map.empty)\<lparr>scripts := None\<rparr>)
        (noFlags\<lparr>fl_storybookBuildDir := JStr ''out''\<rparr>) []
     = Inr \<lparr> opts = (optionsRecord (envWith Map.empty)
                       (noFlags\<lparr>fl_storybookBuildDir := JStr ''out''\<rparr>) [] []
                       (JStr ''/work/out''))\<lparr>noStart := True\<rparr>,
             url = None, notices = [] \<rparr>"
proof -
  let ?ea = "envWith [''build-storybook'' \<mapsto> ''build-storybook -o out'']"
  let ?eb = "envWith Map.empty"
  let ?fb = "noFlags\<lparr>fl_buildScriptName := JStr ''bsb''\<rparr>"
  let ?fc = "noFlags\<lparr>fl_storybookBuildDir := JStr ''out''\<rparr>"
  let ?oa = "optionsRecord ?ea noFlags [] [] Undefined"
  let ?ob = "optionsRecord ?eb ?fb [] [] Undefined"
  let ?oc = "optionsRecord ?eb ?fc [] [] (JStr ''/work/out'')"
  have ma: "mkOptions ?ea noFlags [] = Inr ?oa"
    by (rule mkOptions_noFlags) (simp_all add: noFlags_def)
  have mb: "mkOptions ?eb ?fb [] = Inr ?ob"
    by (rule mkOptions_noFlags) (simp_all add: noFlags_def)
  have mc: "mkOptions ?eb ?fc [] = Inr ?oc"
    by (simp add: mkOptions_def patchRefs_def resolveBuildDir_def noFlags_def envWith_def
        path_resolve_def)
  have ca: "tokenOk ?oa \<and> patchOk noFlags ?oa \<and> singularOk ?oa \<and>
      \<not> truthy (scriptName ?oa) \<and> \<not> truthy (exec ?oa) \<and> \<not> noStart ?oa \<and>
      \<not> truthy (storybookUrl ?oa) \<and> \<not> truthy (port ?oa) \<and>
      \<not> truthy (storybookBuildDir ?oa)"
    by (simp add: sample_defs)
  have cb: "tokenOk ?ob \<and> patchOk ?fb ?ob \<and> singularOk ?ob \<and>
      \<not> truthy (scriptName ?ob) \<and> \<not> truthy (exec ?ob) \<and> \<not> noStart ?ob \<and>
      \<not> truthy (storybookUrl ?ob) \<and> \<not> truthy (port ?ob) \<and>
      \<not> truthy (storybookBuildDir ?ob)"
    by (simp add: sample_defs)
  have cc: "tokenOk ?oc \<and> patchOk ?fc ?oc \<and> singularOk ?oc \<and>
      \<not> truthy (scriptName ?oc) \<and> \<not> truthy (exec ?oc) \<and> \<not> noStart ?oc \<and>
      \<not> truthy (storybookUrl ?oc) \<and> \<not> truthy (port ?oc) \<and>
      truthy (storybookBuildDir ?oc)"
    by (simp add: sample_defs)
  have sa: "\<exists>m cmd. scripts ?ea = Some m \<and> m ''build-storybook'' = Some cmd \<and> cmd \<noteq> []"
    by (simp add: envWith_def)
  have sb: "\<exists>m. scripts ?eb = Some m \<and> m ''bsb'' = None \<and>
      ''bsb'' \<notin> set prototypeFunctions \<and> ''bsb'' \<noteq> ''__proto__''"
    by (simp add: envWith_def prototypeFunctions_def)
  have na: "(case fl_buildScriptName noFlags of JStr n \<Rightarrow> n | _ \<Rightarrow> ''build-storybook'')
      = ''build-storybook''"
    by (simp add: noFlags_def)
  have "getOptions ?ea noFlags []
     = Inr \<lparr> opts = ?oa\<lparr>noStart := True, buildScriptName := JStr ''build-storybook''\<rparr>,
             url = None, notices = [] \<rparr>"
    using C5_build_mode [OF ma] ca sa unfolding na Let_def by blast
  moreover have "getOptions ?eb ?fb [] = Inl (MissingBuildScriptName ''bsb'')"
    using C5_build_mode [OF mb] cb sb by (simp add: Let_def)
  moreover have "getOptions (?eb\<lparr>scripts := None\<rparr>) ?fc []
     = Inr \<lparr> opts = ?oc\<lparr>noStart := True\<rparr>, url = None, notices = [] \<rparr>"
    using C5_build_mode [OF mc] cc by blast
  ultimately show ?thesis by blast
qed


section \<open>Starting Storybook from the manifest's script\<close>

lemma gsc_plain:
  "getStorybookConfiguration ''start-storybook -p 9009'' ''-p'' (Some ''--port'') = JStr ''9009''"
  "getStorybookConfiguration ''start-storybook -p 9009'' ''--https'' None = Undefined"
  by (simp_all add: getStorybookConfiguration_def tokenSep_def)

lemma gsc_tls:
  "getStorybookConfiguration
     ''start-storybook -p 9009 --https --ssl-cert=./c.pem --ssl-key=./k.pem''
     ''-p'' (Some ''--port'') = JStr ''9009''"
  "getStorybookConfiguration
     ''start-storybook -p 9009 --https --ssl-cert=./c.pem --ssl-key=./k.pem''
     ''--https'' None = JStr ''--ssl-cert''"
  "getStorybookConfiguration
     ''start-storybook -p 9009 --https --ssl-cert=./c.pem --ssl-key=./k.pem''
     ''--ssl-cert'' None = JStr ''./c.pem''"
  "getStorybookConfiguration
     ''start-storybook -p 9009 --https --ssl-cert=./c.pem --ssl-key=./k.pem''
     ''--ssl-key'' None = JStr ''./k.pem''"
  "getStorybookConfiguration
     ''start-storybook -p 9009 --https --ssl-cert=./c.pem --ssl-key=./k.pem''
     ''--ssl-ca'' None = Undefined"
  by (simp_all add: getStorybookConfiguration_def tokenSep_def)

lemmas url_defs =
  finalizeUrl_def url_parse_def url_format_def splitProto_def protoChar_def lowerChar_def
  slashedProtocol_def hostlessProtocol_def hostEnding_def addSuffix_def endsWith_def
  orEmpty_def Let_def

lemma finalizeUrl_9009:
  "finalizeUrl (JStr ''http://localhost:9009'') = Inr ''http://localhost:9009/iframe.html''"
  "finalizeUrl (JStr ''https://localhost:9009'') = Inr ''https://localhost:9009/iframe.html''"
  by (simp_all add: url_defs)

lemma resolve_start_or_fetch:
  assumes "tokenOk options" "patchOk f options" "singularOk options" "exitOk options"
    and "truthy (scriptName options) \<or> truthy (exec options) \<or> noStart options \<or>
         truthy (storybookUrl options) \<or> truthy (port options)"
  shows "resolve e f options =
           startOrFetch e options (noStart options \<or> truthy (storybookUrl options))"
  using assms
  by (auto simp: resolve_def tokenOk_def patchOk_def singularOk_def exitOk_def Let_def)

text \<open>
  The input of C6 as the spec gives it: a token, the manifest script
  \<^verbatim>\<open>"storybook": "start-storybook -p 9009"\<close> and no flag. Every selector,
  \<^verbatim>\<open>noStart\<close> and \<^verbatim>\<open>port\<close> are falsy, so line 125 enters the build branch, and the
  manifest has no \<^verbatim>\<open>build-storybook\<close> script.
\<close>

theorem C6_counterexample:
  "getOptions (envWith [''storybook'' \<mapsto> ''start-storybook -p 9009'']) noFlags []
     = Inl (MissingBuildScriptName ''build-storybook'')"
proof -
  let ?e = "envWith [''storybook'' \<mapsto> ''start-storybook -p 9009'']"
  let ?o = "optionsRecord ?e noFlags [] [] Undefined"
  have m: "mkOptions ?e noFlags [] = Inr ?o"
    by (rule mkOptions_noFlags) (simp_all add: noFlags_def)
  have c: "tokenOk ?o \<and> patchOk noFlags ?o \<and> singularOk ?o \<and>
      \<not> truthy (scriptName ?o) \<and> \<not> truthy (exec ?o) \<and> \<not> noStart ?o \<and>
      \<not> truthy (storybookUrl ?o) \<and> \<not> truthy (port ?o) \<and>
      \<not> truthy (storybookBuildDir ?o) \<and> buildScriptName ?o = Undefined"
    by (simp add: sample_defs)
  have s: "scriptOf ?e ''build-storybook'' = Undefined"
    by (simp add: scriptOf_def envWith_def inherited_def prototypeFunctions_def)
  show ?thesis
    using c by (simp add: getOptions_resolve [OF m] resolve_build_mode buildStorybook_def s)
qed


text \<open>
  C6, as amended. With no selector flag at all, line 125 takes the build branch, so
  that input fails with \<open>MissingBuildScriptName\<close> (the counterexample
  above). With the \<^verbatim>\<open>scriptName\<close> flag present without a value (and the token and
  patch-build checks passing, the other selectors, \<^verbatim>\<open>port\<close>, \<^verbatim>\<open>noStart\<close>,
  \<^verbatim>\<open>https\<close> and \<^verbatim>\<open>exitOnceUploaded\<close> falsy), a manifest script
  \<^verbatim>\<open>"storybook": "start-storybook -p 9009"\<close> resolves to the script name
  \<^verbatim>\<open>storybook\<close>, the inferred port \<^verbatim>\<open>9009\<close> in the notice and in the url
  \<^verbatim>\<open>http://localhost:9009/iframe.html\<close>; with
  \<^verbatim>\<open>--https --ssl-cert=./c.pem --ssl-key=./k.pem\<close> added to the script, \<^verbatim>\<open>https\<close> is
  the object of \<^verbatim>\<open>./c.pem\<close>, \<^verbatim>\<open>./k.pem\<close> and \<^verbatim>\<open>undefined\<close> and the url is
  \<^verbatim>\<open>https://localhost:9009/iframe.html\<close>.
\<close>

theorem C6_start_from_script:
  assumes "mkOptions e f argv = Inr options" and "tokenOk options" and "patchOk f options"
    and "fl_scriptName f = JStr []"
    and "\<not> truthy (buildScriptName options)" and "\<not> truthy (exec options)"
    and "\<not> truthy (storybookUrl options)" and "\<not> truthy (storybookBuildDir options)"
    and "\<not> truthy (port options)" and "\<not> noStart options"
    and "\<not> truthy (https options)" and "\<not> truthy (exitOnceUploaded options)"
    and "scripts e = Some m"
  shows "(m ''storybook'' = Some ''start-storybook -p 9009'' \<longrightarrow>
           getOptions e f argv =
             Inr \<lparr> opts = options\<lparr>noStart := False, https := Undefined,
                                   scriptName := JStr ''storybook''\<rparr>,
                   url = Some ''http://localhost:9009/iframe.html'',
                   notices = (if hasLog e then [(''storybook'', JStr ''9009'')] else []) \<rparr>)
       \<and> (m ''storybook'' =
            Some ''start-storybook -p 9009 --https --ssl-cert=./c.pem --ssl-key=./k.pem'' \<longrightarrow>
           getOptions e f argv =
             Inr \<lparr> opts = options\<lparr>noStart := False,
                       https := JObj [(''cert'', JStr ''./c.pem''), (''key'', JStr ''./k.pem''),
                                      (''ca'', Undefined)],
                       scriptName := JStr ''storybook''\<rparr>,
                   url = Some ''https://localhost:9009/iframe.html'',
                   notices = (if hasLog e then [(''storybook'', JStr ''9009'')] else []) \<rparr>)"
proof -
  have sn: "scriptName options = JBool True"
    using assms(1,4) by (elim mkOptions_Inr) (simp add: optionsRecord_def sentinel_def isEmptyStr_def)
  have so: "singularOk options"
    using assms sn by (simp add: singularOk_def foundSingularOpts_def singularOpts_def optField_def)
  have eo: "exitOk options"
    using assms by (simp add: exitOk_def)
  have g: "getOptions e f argv = startOrFetch e options False"
    using assms sn so eo
    by (simp add: getOptions_resolve resolve_start_or_fetch [where f = f])
  have ch: "callerHttps options = https options"
    using assms by (simp add: callerHttps_def js_and_def)
  show ?thesis
    unfolding g using assms sn ch
    apply (intro conjI impI)
    apply (simp_all add: startOrFetch_def startStorybook_def scriptOf_def inferHttps_def
            gsc_plain gsc_tls js_or_def localUrl_def finalizeUrl_9009 Let_def)
    done
qed


theorem C6_start_from_script_witness:
  "(\<exists>r. getOptions (envWith [''storybook'' \<mapsto> ''start-storybook -p 9009''])
          (noFlags\<lparr>fl_scriptName := JStr []\<rparr>) [] = Inr r
        \<and> url r = Some ''http://localhost:9009/iframe.html''
        \<and> notices r = [(''storybook'', JStr ''9009'')]
        \<and> scriptName (opts r) = JStr ''storybook'' \<and> \<not> noStart (opts r))
   \<and> (\<exists>r. getOptions
          (envWith [''storybook'' \<mapsto>
             ''start-storybook -p 9009 --https --ssl-cert=./c.pem --ssl-key=./k.pem''])
          (noFlags\<lparr>fl_scriptName := JStr []\<rparr>) [] = Inr r
        \<and> url r = Some ''https://localhost:9009/iframe.html''
        \<and> https (opts r) = JObj [(''cert'', JStr ''./c.pem''), (''key'', JStr ''./k.pem''),
                                   (''ca'', Undefined)])"
proof -
  let ?ma = "[''storybook'' \<mapsto> ''start-storybook -p 9009'']"
  let ?mb = "[''storybook'' \<mapsto>
             ''start-storybook -p 9009 --https --ssl-cert=./c.pem --ssl-key=./k.pem'']"
  let ?f = "noFlags\<lparr>fl_scriptName := JStr []\<rparr>"
  let ?oa = "optionsRecord (envWith ?ma) ?f [] [] Undefined"
  let ?ob = "optionsRecord (envWith ?mb) ?f [] [] Undefined"
  have ma: "mkOptions (envWith ?ma) ?f [] = Inr ?oa"
    by (rule mkOptions_noFlags) (simp_all add: noFlags_def)
  have mb: "mkOptions (envWith ?mb) ?f [] = Inr ?ob"
    by (rule mkOptions_noFlags) (simp_all add: noFlags_def)
  have fs: "fl_scriptName ?f = JStr []"
    by simp
  have ca: "tokenOk ?oa" "patchOk ?f ?oa" "\<not> truthy (buildScriptName ?oa)"
    "\<not> truthy (exec ?oa)" "\<not> truthy (storybookUrl ?oa)" "\<not> truthy (storybookBuildDir ?oa)"
    "\<not> truthy (port ?oa)" "\<not> noStart ?oa" "\<not> truthy (https ?oa)"
    "\<not> truthy (exitOnceUploaded ?oa)"
    by (simp_all add: sample_defs)
  have cb: "tokenOk ?ob" "patchOk ?f ?ob" "\<not> truthy (buildScriptName ?ob)"
    "\<not> truthy (exec ?ob)" "\<not> truthy (storybookUrl ?ob)" "\<not> truthy (storybookBuildDir ?ob)"
    "\<not> truthy (port ?ob)" "\<not> noStart ?ob" "\<not> truthy (https ?ob)"
    "\<not> truthy (exitOnceUploaded ?ob)"
    by (simp_all add: sample_defs)
  have sa: "scripts (envWith ?ma) = Some ?ma" and sb: "scripts (envWith ?mb) = Some ?mb"
    by (simp_all add: envWith_def)
  have la: "hasLog (envWith ?ma)"
    by (simp add: envWith_def)
  have ka: "?ma ''storybook'' = Some ''start-storybook -p 9009''"
    and kb: "?mb ''storybook'' =
      Some ''start-storybook -p 9009 --https --ssl-cert=./c.pem --ssl-key=./k.pem''"
    by simp_all
  have ta: "getOptions (envWith ?ma) ?f [] =
      Inr \<lparr> opts = ?oa\<lparr>noStart := False, https := Undefined,
                           scriptName := JStr ''storybook''\<rparr>,
            url = Some ''http://localhost:9009/iframe.html'',
            notices = (if hasLog (envWith ?ma) then [(''storybook'', JStr ''9009'')] else []) \<rparr>"
    using C6_start_from_script [OF ma ca(1,2) fs ca(3-10) sa] ka by blast
  have tb: "getOptions (envWith ?mb) ?f [] =
      Inr \<lparr> opts = ?ob\<lparr>noStart := False,
                https := JObj [(''cert'', JStr ''./c.pem''), (''key'', JStr ''./k.pem''),
                               (''ca'', Undefined)],
                scriptName := JStr ''storybook''\<rparr>,
            url = Some ''https://localhost:9009/iframe.html'',
            notices = (if hasLog (envWith ?mb) then [(''storybook'', JStr ''9009'')] else []) \<rparr>"
    using C6_start_from_script [OF mb cb(1,2) fs cb(3-10) sb] kb by blast
  show ?thesis
    unfolding ta tb by (simp add: la)
qed


section \<open>Caller flags against values read from the script\<close>

lemma startStorybook_https:
  "startStorybook e options ns = Inr l \<Longrightarrow> truthy (https options) \<Longrightarrow>
   l_https l = JObj [(''cert'', cert options), (''key'', key options), (''ca'', ca options)]"
  by (auto simp: startStorybook_def callerHttps_def js_and_def inferHttps_def Let_def
      split: if_splits jsval.splits sum.splits)

lemma startStorybook_port:
  "startStorybook e options ns = Inr l \<Longrightarrow> truthy (port options) \<Longrightarrow>
   l_port l = port options"
  by (auto simp: startStorybook_def js_or_def Let_def
      split: if_splits jsval.splits sum.splits)

lemma resolve_start_Inr:
  assumes "resolve e f options = Inr r" and "\<not> truthy (storybookUrl options)"
    and "truthy (scriptName options) \<or> truthy (exec options) \<or> noStart options \<or>
         truthy (port options)"
  obtains l u where "startStorybook e options (noStart options) = Inr l"
    and "finalizeUrl (JStr (localUrl (l_https l) (l_port l))) = Inr u"
    and "r = \<lparr> opts = options\<lparr>noStart := noStart options, https := l_https l,
                                 scriptName := l_scriptName l\<rparr>,
                url = Some u, notices = l_notices l \<rparr>"
  using assms
  by (auto simp: resolve_def startOrFetch_def Let_def split: if_splits sum.splits)

lemma startStorybook_ignores_tls_flags:
  assumes "\<not> truthy (https options)"
  shows "map_sum id l_https (startStorybook e (options\<lparr>cert := c, key := k, ca := a\<rparr>) ns)
       = map_sum id l_https (startStorybook e options ns)"
  using assms
  by (auto simp: startStorybook_def callerHttps_def js_and_def Let_def
      split: jsval.splits sum.splits)


lemma resolve_ignores_tls_flags:
  assumes "\<not> truthy (https options)"
  shows "map_sum id (\<lambda>r. (https (opts r), url r))
           (resolve e f (options\<lparr>cert := c, key := k, ca := a\<rparr>))
       = map_sum id (\<lambda>r. (https (opts r), url r)) (resolve e f options)"
proof -
  have fs: "foundSingularOpts (options\<lparr>cert := c, key := k, ca := a\<rparr>)
      = foundSingularOpts options"
    by (simp add: foundSingularOpts_def optField_def)
  have bs: "map_sum id (\<lambda>r. (https (opts r), url r))
           (buildStorybook e (options\<lparr>cert := c, key := k, ca := a\<rparr>))
       = map_sum id (\<lambda>r. (https (opts r), url r)) (buildStorybook e options)"
    by (simp add: buildStorybook_def Let_def)
  have ch: "callerHttps (options\<lparr>cert := c, key := k, ca := a\<rparr>) = callerHttps options"
    using assms by (simp add: callerHttps_def js_and_def)
  have st: "startStorybook e (options\<lparr>cert := c, key := k, ca := a\<rparr>) ns
      = startStorybook e options ns" for ns
    by (auto simp: startStorybook_def ch Let_def split: jsval.splits sum.splits)
  have sf: "map_sum id (\<lambda>r. (https (opts r), url r))
           (startOrFetch e (options\<lparr>cert := c, key := k, ca := a\<rparr>) ns)
       = map_sum id (\<lambda>r. (https (opts r), url r)) (startOrFetch e options ns)" for ns
    by (simp add: startOrFetch_def st ch split: sum.splits)
  show ?thesis
    by (auto simp: resolve_def fs bs sf Let_def)
qed

lemma resolve_patch_flag_only:
  assumes "fl_patchBuild f' = fl_patchBuild f"
  shows "resolve e f' options = resolve e f options"
  unfolding resolve_def assms ..

lemma mkOptions_tls_flags:
  "mkOptions e f argv = Inr options \<Longrightarrow>
   mkOptions e (f\<lparr>fl_storybookCert := c, fl_storybookKey := k, fl_storybookCa := a\<rparr>) argv
     = Inr (options\<lparr>cert := c, key := k, ca := a\<rparr>)"
  by (erule mkOptions_Inr) (simp add: mkOptions_def optionsRecord_def)


text \<open>
  An input against C7: the caller passes \<^verbatim>\<open>--script-name\<close> and a certificate path
  \<^verbatim>\<open>./mine.pem\<close>, but not the \<^verbatim>\<open>https\<close> flag; the manifest script names its own
  certificate. The resolved \<^verbatim>\<open>https\<close> object carries the script's certificate.
\<close>

theorem C7_counterexample:
  "getOptions
     (envWith [''storybook'' \<mapsto>
        ''start-storybook -p 9009 --https --ssl-cert=./c.pem --ssl-key=./k.pem''])
     (noFlags\<lparr>fl_scriptName := JStr [], fl_storybookCert := JStr ''./mine.pem''\<rparr>) []
   = Inr \<lparr> opts =
             (optionsRecord
                (envWith [''storybook'' \<mapsto>
                   ''start-storybook -p 9009 --https --ssl-cert=./c.pem --ssl-key=./k.pem''])
                (noFlags\<lparr>fl_scriptName := JStr [], fl_storybookCert := JStr ''./mine.pem''\<rparr>)
                [] [] Undefined)
             \<lparr>noStart := False,
              https := JObj [(''cert'', JStr ''./c.pem''), (''key'', JStr ''./k.pem''),
                             (''ca'', Undefined)],
              scriptName := JStr ''storybook''\<rparr>,
           url = Some ''https://localhost:9009/iframe.html'',
           notices = [(''storybook'', JStr ''9009'')] \<rparr>"
proof -
  let ?e = "envWith [''storybook'' \<mapsto>
        ''start-storybook -p 9009 --https --ssl-cert=./c.pem --ssl-key=./k.pem'']"
  let ?f = "noFlags\<lparr>fl_scriptName := JStr [], fl_storybookCert := JStr ''./mine.pem''\<rparr>"
  let ?o = "optionsRecord ?e ?f [] [] Undefined"
  have m: "mkOptions ?e ?f [] = Inr ?o"
    by (rule mkOptions_noFlags) (simp_all add: noFlags_def)
  have c: "tokenOk ?o" "patchOk ?f ?o" "singularOk ?o" "exitOk ?o" "truthy (scriptName ?o)"
    by (simp_all add: sample_defs)
  have v: "scriptName ?o = JBool True" "exec ?o = Undefined" "port ?o = Undefined"
    "noStart ?o = False" "storybookUrl ?o = Undefined" "https ?o = Undefined"
    by (simp_all add: sample_defs)
  have s: "scriptOf ?e ''storybook'' =
      JStr ''start-storybook -p 9009 --https --ssl-cert=./c.pem --ssl-key=./k.pem''"
    "hasLog ?e"
    by (simp_all add: scriptOf_def envWith_def)
  have g: "getOptions ?e ?f [] = startOrFetch ?e ?o False"
    using c by (simp add: getOptions_resolve [OF m] resolve_start_or_fetch [where f = ?f] v)
  show ?thesis
    unfolding g
    by (simp add: startOrFetch_def startStorybook_def v s callerHttps_def js_and_def
        inferHttps_def gsc_tls js_or_def localUrl_def finalizeUrl_9009 Let_def)
qed

text \<open>
  C7, as amended. In start mode (no \<^verbatim>\<open>storybookUrl\<close>, and a script name, \<^verbatim>\<open>exec\<close>,
  \<^verbatim>\<open>noStart\<close> or \<^verbatim>\<open>port\<close> given), every configuration returned satisfies: a
  truthy caller \<^verbatim>\<open>https\<close> flag makes \<^verbatim>\<open>https\<close> the object of the caller's
  \<^verbatim>\<open>cert\<close>, \<^verbatim>\<open>key\<close> and \<^verbatim>\<open>ca\<close>, whatever the script says; a truthy caller
  \<^verbatim>\<open>port\<close> is the port of the url; and the fields \<^verbatim>\<open>cert\<close>, \<^verbatim>\<open>key\<close>, \<^verbatim>\<open>ca\<close>
  and \<^verbatim>\<open>port\<close> of the configuration are the caller's. When the caller's \<^verbatim>\<open>https\<close>
  flag is falsy, the caller's \<^verbatim>\<open>cert\<close>, \<^verbatim>\<open>key\<close> and \<^verbatim>\<open>ca\<close> have no effect on
  the resolved \<^verbatim>\<open>https\<close> or url: these come from the script alone.
\<close>

theorem C7_caller_precedence:
  assumes "mkOptions e f argv = Inr options"
  shows "(\<forall>r. getOptions e f argv = Inr r \<and> \<not> truthy (storybookUrl options) \<and>
            (truthy (scriptName options) \<or> truthy (exec options) \<or> noStart options \<or>
             truthy (port options)) \<longrightarrow>
            (truthy (https options) \<longrightarrow>
               https (opts r) =
                 JObj [(''cert'', cert options), (''key'', key options), (''ca'', ca options)]) \<and>
            (truthy (port options) \<longrightarrow>
               (\<exists>u. url r = Some u \<and>
                    finalizeUrl (JStr (localUrl (https (opts r)) (port options))) = Inr u)) \<and>
            cert (opts r) = cert options \<and> key (opts r) = key options \<and>
            ca (opts r) = ca options \<and> port (opts r) = port options)
       \<and> (\<not> truthy (https options) \<longrightarrow>
            (\<forall>c k a.
               map_sum id (\<lambda>r. (https (opts r), url r))
                 (getOptions e
                    (f\<lparr>fl_storybookCert := c, fl_storybookKey := k, fl_storybookCa := a\<rparr>) argv)
             = map_sum id (\<lambda>r. (https (opts r), url r)) (getOptions e f argv)))"
proof -
  have g: "getOptions e f argv = resolve e f options"
    using assms by (rule getOptions_resolve)
  have first: "(truthy (https options) \<longrightarrow>
               https (opts r) =
                 JObj [(''cert'', cert options), (''key'', key options), (''ca'', ca options)]) \<and>
            (truthy (port options) \<longrightarrow>
               (\<exists>u. url r = Some u \<and>
                    finalizeUrl (JStr (localUrl (https (opts r)) (port options))) = Inr u)) \<and>
            cert (opts r) = cert options \<and> key (opts r) = key options \<and>
            ca (opts r) = ca options \<and> port (opts r) = port options"
    if "getOptions e f argv = Inr r \<and> \<not> truthy (storybookUrl options) \<and>
            (truthy (scriptName options) \<or> truthy (exec options) \<or> noStart options \<or>
             truthy (port options))" for r
  proof -
    from that obtain l u where l: "startStorybook e options (noStart options) = Inr l"
      and u: "finalizeUrl (JStr (localUrl (l_https l) (l_port l))) = Inr u"
      and r: "r = \<lparr> opts = options\<lparr>noStart := noStart options, https := l_https l,
                                 scriptName := l_scriptName l\<rparr>,
                url = Some u, notices = l_notices l \<rparr>"
      unfolding g by (elim conjE resolve_start_Inr) 
    show ?thesis
      using startStorybook_https [OF l] startStorybook_port [OF l] u
      by (auto simp: r)
  qed
  have second: "map_sum id (\<lambda>r. (https (opts r), url r))
                 (getOptions e
                    (f\<lparr>fl_storybookCert := c, fl_storybookKey := k, fl_storybookCa := a\<rparr>) argv)
             = map_sum id (\<lambda>r. (https (opts r), url r)) (getOptions e f argv)"
    if "\<not> truthy (https options)" for c k a
  proof -
    have "resolve e (f\<lparr>fl_storybookCert := c, fl_storybookKey := k, fl_storybookCa := a\<rparr>)
            (options\<lparr>cert := c, key := k, ca := a\<rparr>)
        = resolve e f (options\<lparr>cert := c, key := k, ca := a\<rparr>)"
      by (rule resolve_patch_flag_only) simp
    then show ?thesis
      using that
      by (simp add: getOptions_def mkOptions_tls_flags [OF assms] assms
          resolve_ignores_tls_flags)
  qed
  from first second show ?thesis by blast
qed


theorem C7_caller_precedence_witness:
  "(\<exists>r. getOptions
          (envWith [''storybook'' \<mapsto>
             ''start-storybook -p 9009 --https --ssl-cert=./c.pem --ssl-key=./k.pem''])
          (noFlags\<lparr>fl_scriptName := JStr [], fl_storybookHttps := JBool True,
                   fl_storybookCert := JStr ''./mine.pem'',
                   fl_storybookPort := JStr ''7007''\<rparr>) [] = Inr r
        \<and> https (opts r) =
            JObj [(''cert'', JStr ''./mine.pem''), (''key'', Undefined), (''ca'', Undefined)]
        \<and> url r = Some ''https://localhost:7007/iframe.html'')
   \<and> map_sum id (\<lambda>r. (https (opts r), url r))
         (getOptions
            (envWith [''storybook'' \<mapsto>
               ''start-storybook -p 9009 --https --ssl-cert=./c.pem --ssl-key=./k.pem''])
            (noFlags\<lparr>fl_scriptName := JStr [], fl_storybookCert := JStr ''./mine.pem'',
                     fl_storybookKey := Undefined, fl_storybookCa := Undefined\<rparr>) [])
     = map_sum id (\<lambda>r. (https (opts r), url r))
         (getOptions
            (envWith [''storybook'' \<mapsto>
               ''start-storybook -p 9009 --https --ssl-cert=./c.pem --ssl-key=./k.pem''])
            (noFlags\<lparr>fl_scriptName := JStr []\<rparr>) [])"
proof -
  let ?e = "envWith [''storybook'' \<mapsto>
        ''start-storybook -p 9009 --https --ssl-cert=./c.pem --ssl-key=./k.pem'']"
  let ?fa = "noFlags\<lparr>fl_scriptName := JStr [], fl_storybookHttps := JBool True,
                   fl_storybookCert := JStr ''./mine.pem'',
                   fl_storybookPort := JStr ''7007''\<rparr>"
  let ?fb = "noFlags\<lparr>fl_scriptName := JStr []\<rparr>"
  let ?oa = "optionsRecord ?e ?fa [] [] Undefined"
  let ?ob = "optionsRecord ?e ?fb [] [] Undefined"
  have ma: "mkOptions ?e ?fa [] = Inr ?oa"
    by (rule mkOptions_noFlags) (simp_all add: noFlags_def)
  have mb: "mkOptions ?e ?fb [] = Inr ?ob"
    by (rule mkOptions_noFlags) (simp_all add: noFlags_def)
  have c: "tokenOk ?oa" "patchOk ?fa ?oa" "singularOk ?oa" "exitOk ?oa"
    "truthy (scriptName ?oa)"
    by (simp_all add: sample_defs)
  have v: "scriptName ?oa = JBool True" "exec ?oa = Undefined" "port ?oa = JStr ''7007''"
    "noStart ?oa = False" "storybookUrl ?oa = Undefined" "https ?oa = JBool True"
    "cert ?oa = JStr ''./mine.pem''" "key ?oa = Undefined" "ca ?oa = Undefined"
    by (simp_all add: sample_defs)
  have vb: "\<not> truthy (https ?ob)"
    by (simp add: sample_defs)
  have s: "scriptOf ?e ''storybook'' =
      JStr ''start-storybook -p 9009 --https --ssl-cert=./c.pem --ssl-key=./k.pem''"
    by (simp add: scriptOf_def envWith_def)
  have fu: "finalizeUrl (JStr ''https://localhost:7007'') = Inr ''https://localhost:7007/iframe.html''"
    by (simp add: url_defs)
  have g: "getOptions ?e ?fa [] = startOrFetch ?e ?oa False"
    using c by (simp add: getOptions_resolve [OF ma] resolve_start_or_fetch [where f = ?fa] v)
  obtain r where r: "getOptions ?e ?fa [] = Inr r"
    unfolding g
    by (simp add: startOrFetch_def startStorybook_def v s callerHttps_def js_and_def
        inferHttps_def js_or_def localUrl_def fu Let_def)
  have h: "https (opts r) =
      JObj [(''cert'', JStr ''./mine.pem''), (''key'', Undefined), (''ca'', Undefined)]"
    and u: "\<exists>u. url r = Some u \<and>
      finalizeUrl (JStr (localUrl (https (opts r)) (JStr ''7007''))) = Inr u"
    using C7_caller_precedence [OF ma] r by (auto simp: v)
  have "url r = Some ''https://localhost:7007/iframe.html''"
    using u by (auto simp: h localUrl_def fu)
  with r h have first: "\<exists>r. getOptions ?e ?fa [] = Inr r
        \<and> https (opts r) =
            JObj [(''cert'', JStr ''./mine.pem''), (''key'', Undefined), (''ca'', Undefined)]
        \<and> url r = Some ''https://localhost:7007/iframe.html''"
    by blast
  have second: "map_sum id (\<lambda>r. (https (opts r), url r))
         (getOptions ?e (?fb\<lparr>fl_storybookCert := JStr ''./mine.pem'',
                     fl_storybookKey := Undefined, fl_storybookCa := Undefined\<rparr>) [])
     = map_sum id (\<lambda>r. (https (opts r), url r)) (getOptions ?e ?fb [])"
    using C7_caller_precedence [OF mb] vb by blast
  from first second show ?thesis by simp
qed


section \<open>Home directory expansion of TLS paths\<close>

lemma splitSlash_noslash: "CHR ''/'' \<notin> set s \<Longrightarrow> splitSlash acc s = [rev acc @ s]"
  by (induction s arbitrary: acc) auto

lemma splitSlash_seg:
  "CHR ''/'' \<notin> set s \<Longrightarrow> splitSlash acc (s @ CHR ''/'' # t) = (rev acc @ s) # splitSlash [] t"
  by (induction s arbitrary: acc) auto

lemma splitSlash_join:
  assumes "segs \<noteq> []" and "\<forall>s \<in> set segs. CHR ''/'' \<notin> set s"
  shows "splitSlash [] (joinWith ''/'' segs) = segs"
    and "splitSlash [] (joinWith ''/'' segs @ CHR ''/'' # t) = segs @ splitSlash [] t"
  using assms
proof (induction "''/''" segs rule: joinWith.induct)
  case 1
  { case 1 then show ?case by simp next case 2 then show ?case by simp }
next
  case (2 x)
  { case 1 then show ?case by (simp add: splitSlash_noslash)
  next case 2 then show ?case using splitSlash_seg [of x "[]" t] by simp }
next
  case (3 x y ys)
  { case 1
    then show ?case
      using 3(1) splitSlash_seg [of x "[]" "joinWith ''/'' (y # ys)"] by simp
  next
    case 2
    then show ?case
      using 3(2) splitSlash_seg [of x "[]" "joinWith ''/'' (y # ys) @ CHR ''/'' # t"] by simp }
qed

lemma normSegs_plain:
  "\<forall>s \<in> set xs. plainSeg s \<Longrightarrow> normSegs up st (xs @ ys) = normSegs up (rev xs @ st) ys"
  by (induction xs arbitrary: st) (auto simp: plainSeg_def)

lemma joinWith_append:
  "xs \<noteq> [] \<Longrightarrow> ys \<noteq> [] \<Longrightarrow> joinWith sep (xs @ ys) = joinWith sep xs @ sep @ joinWith sep ys"
  by (induction sep xs rule: joinWith.induct) (auto simp: neq_Nil_conv)

lemma joinWith_last:
  "xs \<noteq> [] \<Longrightarrow> last xs \<noteq> [] \<Longrightarrow> joinWith sep xs \<noteq> [] \<and> last (joinWith sep xs) = last (last xs)"
  by (induction sep xs rule: joinWith.induct) auto


lemma path_join_plain:
  assumes "hs \<noteq> []" and "rs \<noteq> []"
    and "\<forall>s \<in> set hs. plainSeg s" and "\<forall>s \<in> set rs. plainSeg s"
  shows "path_join (CHR ''/'' # joinWith ''/'' hs) (CHR ''/'' # joinWith ''/'' rs)
       = CHR ''/'' # joinWith ''/'' hs @ CHR ''/'' # joinWith ''/'' rs"
proof -
  let ?J = "CHR ''/'' # joinWith ''/'' hs @ CHR ''/'' # CHR ''/'' # joinWith ''/'' rs"
  have ns: "\<forall>s \<in> set hs. CHR ''/'' \<notin> set s" "\<forall>s \<in> set rs. CHR ''/'' \<notin> set s"
    using assms(3,4) by (auto simp: plainSeg_def)
  have "splitSlash [] ?J = [] # splitSlash [] (joinWith ''/'' hs @ CHR ''/'' # CHR ''/'' # joinWith ''/'' rs)"
    by simp
  also have "\<dots> = [] # hs @ splitSlash [] (CHR ''/'' # joinWith ''/'' rs)"
    using splitSlash_join(2) [OF assms(1) ns(1)] by simp
  also have "\<dots> = [] # hs @ [] # rs"
    using splitSlash_join(1) [OF assms(2) ns(2)] by simp
  finally have sp: "splitSlash [] ?J = [] # hs @ [] # rs" .
  have "normSegs False [] ([] # hs @ [] # rs) = normSegs False [] (hs @ [] # rs)"
    by simp
  also have "\<dots> = normSegs False (rev hs) ([] # rs)"
    using normSegs_plain [OF assms(3), of False "[]" "[] # rs"] by simp
  also have "\<dots> = normSegs False (rev hs) (rs @ [])"
    by simp
  also have "\<dots> = hs @ rs"
    using normSegs_plain [OF assms(4), of False "rev hs" "[]"] by simp
  finally have nm: "normSegs False [] (splitSlash [] ?J) = hs @ rs"
    unfolding sp .
  have lr: "last rs \<noteq> []" "CHR ''/'' \<notin> set (last rs)"
    using assms(2,4) last_in_set [of rs] by (auto simp: plainSeg_def)
  have jl: "joinWith ''/'' rs \<noteq> []" "last (joinWith ''/'' rs) = last (last rs)"
    using joinWith_last [OF assms(2) lr(1)] by simp_all
  have "last (last rs) \<in> set (last rs)"
    using lr(1) by (rule last_in_set)
  then have "last (last rs) \<noteq> CHR ''/''"
    using lr(2) by metis
  then have tr: "last ?J \<noteq> CHR ''/''"
    using jl by simp
  have q: "joinWith ''/'' (hs @ rs) = joinWith ''/'' hs @ CHR ''/'' # joinWith ''/'' rs"
    using joinWith_append [OF assms(1,2), of "''/''"] by simp
  have "path_normalize ?J = CHR ''/'' # joinWith ''/'' hs @ CHR ''/'' # joinWith ''/'' rs"
    unfolding path_normalize_def Let_def using tr nm q by simp
  then show ?thesis
    by (simp add: path_join_def)
qed

lemma startStorybook_inferred:
  assumes "startStorybook e options ns = Inr l" and "\<not> truthy (exec options)"
    and "\<not> truthy (port options) \<or> \<not> ns"
    and "scriptOf e (case scriptName options of JStr n \<Rightarrow> n | _ \<Rightarrow> ''storybook'') = JStr script"
  shows "inferHttps e (callerHttps options) script = Inr (l_https l)"
  using assms
  by (auto simp: startStorybook_def Let_def split: if_splits sum.splits)

lemma inferHttps_from_script:
  assumes "inferHttps e h script = Inr v" and "\<not> truthy h"
    and "truthy (getStorybookConfiguration script ''--https'' None)"
  shows "\<exists>c k a.
      resolveHomeDir (HOME e) (getStorybookConfiguration script ''--ssl-cert'' None) = Inr c \<and>
      resolveHomeDir (HOME e) (getStorybookConfiguration script ''--ssl-key'' None) = Inr k \<and>
      resolveHomeDir (HOME e) (getStorybookConfiguration script ''--ssl-ca'' None) = Inr a \<and>
      v = JObj [(''cert'', c), (''key'', k), (''ca'', a)]"
  using assms by (auto simp: inferHttps_def split: sum.splits)

lemma resolve_url_Inr:
  assumes "resolve e f options = Inr r" and "truthy (storybookUrl options)"
  shows "https (opts r) = callerHttps options"
  using assms
  by (auto simp: resolve_def startOrFetch_def Let_def split: if_splits sum.splits)

lemma getOptions_exec_https:
  "getOptions (envWith Map.empty)
     (noFlags\<lparr>fl_exec := JStr ''serve'', fl_storybookPort := JStr ''7007'',
              fl_storybookHttps := JBool True, fl_storybookCert := c\<rparr>) []
   = Inr \<lparr> opts =
             (optionsRecord (envWith Map.empty)
                (noFlags\<lparr>fl_exec := JStr ''serve'', fl_storybookPort := JStr ''7007'',
                         fl_storybookHttps := JBool True, fl_storybookCert := c\<rparr>)
                [] [] Undefined)
             \<lparr>noStart := False,
              https := JObj [(''cert'', c), (''key'', Undefined), (''ca'', Undefined)],
              scriptName := Undefined\<rparr>,
           url = Some ''https://localhost:7007/iframe.html'', notices = [] \<rparr>"
proof -
  let ?e = "envWith Map.empty"
  let ?f = "noFlags\<lparr>fl_exec := JStr ''serve'', fl_storybookPort := JStr ''7007'',
              fl_storybookHttps := JBool True, fl_storybookCert := c\<rparr>"
  let ?o = "optionsRecord ?e ?f [] [] Undefined"
  have m: "mkOptions ?e ?f [] = Inr ?o"
    by (rule mkOptions_noFlags) (simp_all add: noFlags_def)
  have c: "tokenOk ?o" "patchOk ?f ?o" "singularOk ?o" "exitOk ?o" "truthy (exec ?o)"
    by (simp_all add: sample_defs)
  have v: "scriptName ?o = Undefined" "exec ?o = JStr ''serve''" "port ?o = JStr ''7007''"
    "noStart ?o = False" "storybookUrl ?o = Undefined" "https ?o = JBool True"
    "cert ?o = c" "key ?o = Undefined" "ca ?o = Undefined"
    by (simp_all add: sample_defs)
  have fu: "finalizeUrl (JStr ''https://localhost:7007'') = Inr ''https://localhost:7007/iframe.html''"
    by (simp add: url_defs)
  have g: "getOptions ?e ?f [] = startOrFetch ?e ?o False"
    using c by (simp add: getOptions_resolve [OF m] resolve_start_or_fetch [where f = ?f] v)
  show ?thesis
    unfolding g
    by (simp add: startOrFetch_def startStorybook_def v callerHttps_def js_and_def
        localUrl_def fu)
qed

text \<open>
  An input against C8: the caller starts Storybook with \<^verbatim>\<open>--exec\<close>, a port, the
  \<^verbatim>\<open>https\<close> flag and the certificate path \<^verbatim>\<open>~/c.pem\<close>, with \<^verbatim>\<open>HOME\<close> set to
  \<^verbatim>\<open>/home/u\<close>. The path reaches the resolved \<^verbatim>\<open>https\<close> object as it was given.
\<close>

theorem C8_counterexample:
  "getOptions (envWith Map.empty)
     (noFlags\<lparr>fl_exec := JStr ''serve'', fl_storybookPort := JStr ''7007'',
              fl_storybookHttps := JBool True, fl_storybookCert := JStr ''~/c.pem''\<rparr>) []
   = Inr \<lparr> opts =
             (optionsRecord (envWith Map.empty)
                (noFlags\<lparr>fl_exec := JStr ''serve'', fl_storybookPort := JStr ''7007'',
                         fl_storybookHttps := JBool True,
                         fl_storybookCert := JStr ''~/c.pem''\<rparr>) [] [] Undefined)
             \<lparr>noStart := False,
              https := JObj [(''cert'', JStr ''~/c.pem''), (''key'', Undefined),
                             (''ca'', Undefined)],
              scriptName := Undefined\<rparr>,
           url = Some ''https://localhost:7007/iframe.html'', notices = [] \<rparr>
   \<and> HOME (envWith Map.empty) = Some ''/home/u''"
  by (simp add: getOptions_exec_https) (simp add: envWith_def)

text \<open>
  C8, as amended. \<open>resolveHomeDir\<close> turns a path that begins with \<^verbatim>\<open>~\<close> into
  \<^verbatim>\<open>path.join(HOME, rest)\<close> and leaves every other path (and \<^verbatim>\<open>undefined\<close>) as it
  is; for a \<^verbatim>\<open>HOME\<close> and a rest made of plain segments this is the path with
  \<^verbatim>\<open>~\<close> replaced by \<^verbatim>\<open>HOME\<close>. It is applied to the \<^verbatim>\<open>cert\<close>, \<^verbatim>\<open>key\<close> and \<^verbatim>\<open>ca\<close> paths inferred from
  the manifest script: when the caller's \<^verbatim>\<open>https\<close> flag is falsy and the script
  has \<^verbatim>\<open>--https\<close>, the resolved \<^verbatim>\<open>https\<close> object holds the expanded paths. The
  paths the caller supplies are not expanded: with a truthy caller \<^verbatim>\<open>https\<close> flag
  the resolved \<^verbatim>\<open>https\<close> object holds the caller's \<^verbatim>\<open>cert\<close>, \<^verbatim>\<open>key\<close> and \<^verbatim>\<open>ca\<close>
  unchanged.
\<close>

theorem C8_home_expansion:
  assumes "mkOptions e f argv = Inr options" and "getOptions e f argv = Inr r"
  shows "(truthy (https options) \<and>
          (truthy (storybookUrl options) \<or> truthy (scriptName options) \<or>
           truthy (exec options) \<or> noStart options \<or> truthy (port options)) \<longrightarrow>
            https (opts r) =
              JObj [(''cert'', cert options), (''key'', key options), (''ca'', ca options)])
       \<and> (\<not> truthy (https options) \<and> \<not> truthy (storybookUrl options) \<and>
          \<not> truthy (exec options) \<and>
          (truthy (scriptName options) \<or> noStart options \<or> truthy (port options)) \<and>
          (\<not> truthy (port options) \<or> \<not> noStart options) \<longrightarrow>
            (\<forall>script.
               scriptOf e (case scriptName options of JStr n \<Rightarrow> n | _ \<Rightarrow> ''storybook'')
                 = JStr script \<and>
               truthy (getStorybookConfiguration script ''--https'' None) \<longrightarrow>
               (\<exists>c k a.
                  resolveHomeDir (HOME e)
                    (getStorybookConfiguration script ''--ssl-cert'' None) = Inr c \<and>
                  resolveHomeDir (HOME e)
                    (getStorybookConfiguration script ''--ssl-key'' None) = Inr k \<and>
                  resolveHomeDir (HOME e)
                    (getStorybookConfiguration script ''--ssl-ca'' None) = Inr a \<and>
                  https (opts r) = JObj [(''cert'', c), (''key'', k), (''ca'', a)])))
       \<and> (\<forall>h p. resolveHomeDir (Some h) (JStr (CHR ''~'' # p)) = Inr (JStr (path_join h p)))
       \<and> (\<forall>home p. p = [] \<or> hd p \<noteq> CHR ''~'' \<longrightarrow>
             resolveHomeDir home (JStr p) = Inr (JStr p))
       \<and> (\<forall>home. resolveHomeDir home Undefined = Inr Undefined)
       \<and> (\<forall>hs rs. hs \<noteq> [] \<and> rs \<noteq> [] \<and> (\<forall>s \<in> set hs. plainSeg s) \<and>
             (\<forall>s \<in> set rs. plainSeg s) \<longrightarrow>
             resolveHomeDir (Some (CHR ''/'' # joinWith ''/'' hs))
               (JStr (CHR ''~'' # CHR ''/'' # joinWith ''/'' rs))
             = Inr (JStr (CHR ''/'' # joinWith ''/'' hs @ CHR ''/'' # joinWith ''/'' rs)))"
proof -
  have g: "resolve e f options = Inr r"
    using assms by (simp add: getOptions_resolve)
  have caller: "https (opts r) =
      JObj [(''cert'', cert options), (''key'', key options), (''ca'', ca options)]"
    if "truthy (https options) \<and>
          (truthy (storybookUrl options) \<or> truthy (scriptName options) \<or>
           truthy (exec options) \<or> noStart options \<or> truthy (port options))"
  proof (cases "truthy (storybookUrl options)")
    case True
    then show ?thesis
      using resolve_url_Inr [OF g] that by (simp add: callerHttps_def js_and_def)
  next
    case False
    with that g obtain l where "startStorybook e options (noStart options) = Inr l"
      and "https (opts r) = l_https l"
      by (elim resolve_start_Inr) auto
    then show ?thesis
      using startStorybook_https that by simp
  qed
  have script: "\<exists>c k a.
        resolveHomeDir (HOME e) (getStorybookConfiguration script ''--ssl-cert'' None) = Inr c \<and>
        resolveHomeDir (HOME e) (getStorybookConfiguration script ''--ssl-key'' None) = Inr k \<and>
        resolveHomeDir (HOME e) (getStorybookConfiguration script ''--ssl-ca'' None) = Inr a \<and>
        https (opts r) = JObj [(''cert'', c), (''key'', k), (''ca'', a)]"
    if a: "\<not> truthy (https options) \<and> \<not> truthy (storybookUrl options) \<and>
          \<not> truthy (exec options) \<and>
          (truthy (scriptName options) \<or> noStart options \<or> truthy (port options)) \<and>
          (\<not> truthy (port options) \<or> \<not> noStart options)"
      and b: "scriptOf e (case scriptName options of JStr n \<Rightarrow> n | _ \<Rightarrow> ''storybook'')
                 = JStr script \<and>
               truthy (getStorybookConfiguration script ''--https'' None)"
    for script
  proof -
    from a g obtain l where l: "startStorybook e options (noStart options) = Inr l"
      and h: "https (opts r) = l_https l"
      by (elim resolve_start_Inr) auto
    have "inferHttps e (callerHttps options) script = Inr (l_https l)"
      using startStorybook_inferred [OF l] a b by blast
    moreover have "\<not> truthy (callerHttps options)"
      using a by (simp add: callerHttps_def js_and_def)
    ultimately show ?thesis
      unfolding h using inferHttps_from_script b by blast
  qed
  have "\<forall>h p. resolveHomeDir (Some h) (JStr (CHR ''~'' # p)) = Inr (JStr (path_join h p))"
    and "\<forall>home p. p = [] \<or> hd p \<noteq> CHR ''~'' \<longrightarrow>
             resolveHomeDir home (JStr p) = Inr (JStr p)"
    and "\<forall>home. resolveHomeDir home Undefined = Inr Undefined"
    by auto
  moreover have "\<forall>hs rs. hs \<noteq> [] \<and> rs \<noteq> [] \<and> (\<forall>s \<in> set hs. plainSeg s) \<and>
             (\<forall>s \<in> set rs. plainSeg s) \<longrightarrow>
             resolveHomeDir (Some (CHR ''/'' # joinWith ''/'' hs))
               (JStr (CHR ''~'' # CHR ''/'' # joinWith ''/'' rs))
             = Inr (JStr (CHR ''/'' # joinWith ''/'' hs @ CHR ''/'' # joinWith ''/'' rs))"
    by (simp add: path_join_plain)
  ultimately show ?thesis using caller script by blast
qed


lemma gsc_tls_home:
  "getStorybookConfiguration
     ''start-storybook -p 9009 --https --ssl-cert=~/c.pem --ssl-key=./k.pem''
     ''-p'' (Some ''--port'') = JStr ''9009''"
  "getStorybookConfiguration
     ''start-storybook -p 9009 --https --ssl-cert=~/c.pem --ssl-key=./k.pem''
     ''--https'' None = JStr ''--ssl-cert''"
  "getStorybookConfiguration
     ''start-storybook -p 9009 --https --ssl-cert=~/c.pem --ssl-key=./k.pem''
     ''--ssl-cert'' None = JStr ''~/c.pem''"
  "getStorybookConfiguration
     ''start-storybook -p 9009 --https --ssl-cert=~/c.pem --ssl-key=./k.pem''
     ''--ssl-key'' None = JStr ''./k.pem''"
  "getStorybookConfiguration
     ''start-storybook -p 9009 --https --ssl-cert=~/c.pem --ssl-key=./k.pem''
     ''--ssl-ca'' None = Undefined"
  by (simp_all add: getStorybookConfiguration_def tokenSep_def)

lemma path_join_sample: "path_join ''/home/u'' ''/c.pem'' = ''/home/u/c.pem''"
  by (simp add: path_join_def path_normalize_def)

lemma resolveHomeDir_sample:
  "resolveHomeDir (Some ''/home/u'') (JStr ''~/c.pem'') = Inr (JStr ''/home/u/c.pem'')"
  by (simp add: path_join_sample)

theorem C8_home_expansion_witness:
  "(\<exists>r. getOptions
          (envWith [''storybook'' \<mapsto>
             ''start-storybook -p 9009 --https --ssl-cert=~/c.pem --ssl-key=./k.pem''])
          (noFlags\<lparr>fl_scriptName := JStr []\<rparr>) [] = Inr r
        \<and> https (opts r) =
            JObj [(''cert'', JStr ''/home/u/c.pem''), (''key'', JStr ''./k.pem''),
                  (''ca'', Undefined)])
   \<and> (\<exists>r. getOptions (envWith Map.empty)
          (noFlags\<lparr>fl_exec := JStr ''serve'', fl_storybookPort := JStr ''7007'',
                   fl_storybookHttps := JBool True,
                   fl_storybookCert := JStr ''~/c.pem''\<rparr>) [] = Inr r
        \<and> https (opts r) =
            JObj [(''cert'', JStr ''~/c.pem''), (''key'', Undefined), (''ca'', Undefined)])"
proof -
  let ?sc = "''start-storybook -p 9009 --https --ssl-cert=~/c.pem --ssl-key=./k.pem''"
  let ?e = "envWith [''storybook'' \<mapsto> ?sc]"
  let ?f = "noFlags\<lparr>fl_scriptName := JStr []\<rparr>"
  let ?o = "optionsRecord ?e ?f [] [] Undefined"
  let ?g = "noFlags\<lparr>fl_exec := JStr ''serve'', fl_storybookPort := JStr ''7007'',
                   fl_storybookHttps := JBool True, fl_storybookCert := JStr ''~/c.pem''\<rparr>"
  let ?p = "optionsRecord (envWith Map.empty) ?g [] [] Undefined"
  have m: "mkOptions ?e ?f [] = Inr ?o"
    by (rule mkOptions_noFlags) (simp_all add: noFlags_def)
  have mg: "mkOptions (envWith Map.empty) ?g [] = Inr ?p"
    by (rule mkOptions_noFlags) (simp_all add: noFlags_def)
  have c: "tokenOk ?o" "patchOk ?f ?o" "singularOk ?o" "exitOk ?o" "truthy (scriptName ?o)"
    by (simp_all add: sample_defs)
  have v: "scriptName ?o = JBool True" "exec ?o = Undefined" "port ?o = Undefined"
    "noStart ?o = False" "storybookUrl ?o = Undefined" "https ?o = Undefined"
    by (simp_all add: sample_defs)
  have vp: "https ?p = JBool True" "exec ?p = JStr ''serve''" "cert ?p = JStr ''~/c.pem''"
    "key ?p = Undefined" "ca ?p = Undefined"
    by (simp_all add: sample_defs)
  have s: "scriptOf ?e ''storybook'' = JStr ?sc" "hasLog ?e" "HOME ?e = Some ''/home/u''"
    by (simp_all add: scriptOf_def envWith_def)
  have g: "getOptions ?e ?f [] = startOrFetch ?e ?o False"
    using c by (simp add: getOptions_resolve [OF m] resolve_start_or_fetch [where f = ?f] v)
  obtain r where r: "getOptions ?e ?f [] = Inr r"
    unfolding g
    by (simp add: startOrFetch_def startStorybook_def v s callerHttps_def js_and_def
        inferHttps_def gsc_tls_home resolveHomeDir_sample js_or_def localUrl_def
        finalizeUrl_9009 Let_def)
  have "https (opts r) =
      JObj [(''cert'', JStr ''/home/u/c.pem''), (''key'', JStr ''./k.pem''), (''ca'', Undefined)]"
    using C8_home_expansion [OF m r]
    by (auto simp: v s gsc_tls_home path_join_sample)
  with r have first: "\<exists>r. getOptions ?e ?f [] = Inr r \<and> https (opts r) =
      JObj [(''cert'', JStr ''/home/u/c.pem''), (''key'', JStr ''./k.pem''), (''ca'', Undefined)]"
    by blast
  obtain q where q: "getOptions (envWith Map.empty) ?g [] = Inr q"
    by (simp add: getOptions_exec_https)
  have "https (opts q) =
      JObj [(''cert'', JStr ''~/c.pem''), (''key'', Undefined), (''ca'', Undefined)]"
    using C8_home_expansion [OF mg q] by (simp add: vp)
  with q have second: "\<exists>r. getOptions (envWith Map.empty) ?g [] = Inr r \<and> https (opts r) =
      JObj [(''cert'', JStr ''~/c.pem''), (''key'', Undefined), (''ca'', Undefined)]"
    by blast
  from first second show ?thesis by blast
qed


section \<open>The storybook-url flag without a value\<close>

lemma storybookUrl_sentinel:
  "mkOptions e f argv = Inr options \<Longrightarrow> fl_storybookUrl f = JStr [] \<Longrightarrow>
   storybookUrl options = JBool True"
  by (erule mkOptions_Inr) (simp add: optionsRecord_def sentinel_def isEmptyStr_def)

lemma resolve_url_true:
  "storybookUrl options = JBool True \<Longrightarrow> resolve e f options \<noteq> Inr r"
  by (auto simp: resolve_def startOrFetch_def finalizeUrl_def Let_def split: if_splits)

text \<open>
  An input against C10: a token, the \<^verbatim>\<open>storybookUrl\<close> flag without a value and the
  \<^verbatim>\<open>exitOnceUploaded\<close> flag. Line 113 forces \<^verbatim>\<open>noStart\<close>, and line 116 raises
  \<open>InvalidExitOnceUploaded\<close>, one of the nine named kinds, before the URL is parsed.
\<close>

theorem C10_counterexample:
  "getOptions (envWith Map.empty)
     (noFlags\<lparr>fl_storybookUrl := JStr [], fl_exitOnceUploaded := JStr []\<rparr>) []
     = Inl InvalidExitOnceUploaded
   \<and> namedError InvalidExitOnceUploaded
   \<and> truthy (CHROMATIC_PROJECT_TOKEN (envWith Map.empty))"
proof -
  let ?e = "envWith Map.empty"
  let ?f = "noFlags\<lparr>fl_storybookUrl := JStr [], fl_exitOnceUploaded := JStr []\<rparr>"
  let ?o = "optionsRecord ?e ?f [] [] Undefined"
  have m: "mkOptions ?e ?f [] = Inr ?o"
    by (rule mkOptions_noFlags) (simp_all add: noFlags_def)
  have c: "tokenOk ?o" "patchOk ?f ?o" "singularOk ?o" "truthy (exitOnceUploaded ?o)"
    "noStart ?o \<or> truthy (storybookUrl ?o) \<or> truthy (scriptName ?o)"
    by (simp_all add: sample_defs)
  have "getOptions ?e ?f [] = Inl InvalidExitOnceUploaded"
    by (simp add: getOptions_resolve [OF m] resolve_exit_once_uploaded [OF c])
  then show ?thesis by (simp add: envWith_def)
qed

text \<open>
  C10, as amended. Let the \<^verbatim>\<open>storybookUrl\<close> flag be the empty string. Then
  resolution never returns a configuration. If the record is built and the checks of
  lines 75 to 122 pass (a token is present, the patch build is fine, no other
  selector is truthy, \<^verbatim>\<open>exitOnceUploaded\<close> is falsy), the candidate URL handed to
  \<^verbatim>\<open>url.parse\<close> is the boolean \<^verbatim>\<open>true\<close>, and resolution ends in a TypeError, which
  is none of the nine named error kinds. If instead another selector is truthy,
  resolution fails with \<open>InvalidSingularOptions\<close>, and if no other selector is truthy
  but \<^verbatim>\<open>exitOnceUploaded\<close> is, with \<open>InvalidExitOnceUploaded\<close>.
\<close>

theorem C10_storybook_url_without_value:
  assumes "fl_storybookUrl f = JStr []"
  shows "(\<forall>r. getOptions e f argv \<noteq> Inr r)
       \<and> (\<forall>options. mkOptions e f argv = Inr options \<and> tokenOk options \<and>
              patchOk f options \<and> singularOk options \<and> exitOk options \<longrightarrow>
              storybookUrl options = JBool True \<and>
              resolve e f options = (case finalizeUrl (JBool True) of
                  Inl err \<Rightarrow> Inl err
                | Inr u \<Rightarrow> Inr \<lparr> opts = options\<lparr>noStart := True, https := callerHttps options\<rparr>,
                                 url = Some u, notices = [] \<rparr>) \<and>
              getOptions e f argv = Inl TypeError)
       \<and> \<not> namedError TypeError
       \<and> (\<forall>options. mkOptions e f argv = Inr options \<and> tokenOk options \<and>
              patchOk f options \<and> \<not> singularOk options \<longrightarrow>
              getOptions e f argv =
                Inl (InvalidSingularOptions (map labelOf (foundSingularOpts options))))
       \<and> (\<forall>options. mkOptions e f argv = Inr options \<and> tokenOk options \<and>
              patchOk f options \<and> singularOk options \<and> \<not> exitOk options \<longrightarrow>
              getOptions e f argv = Inl InvalidExitOnceUploaded)"
proof -
  have never: "getOptions e f argv \<noteq> Inr r" for r
  proof (cases "mkOptions e f argv")
    case (Inl err)
    then show ?thesis by (simp add: getOptions_def)
  next
    case (Inr options)
    then show ?thesis
      using storybookUrl_sentinel [OF Inr assms] resolve_url_true
      by (simp add: getOptions_resolve)
  qed
  have reach: "storybookUrl options = JBool True \<and>
      resolve e f options = (case finalizeUrl (JBool True) of
                  Inl err \<Rightarrow> Inl err
                | Inr u \<Rightarrow> Inr \<lparr> opts = options\<lparr>noStart := True, https := callerHttps options\<rparr>,
                                 url = Some u, notices = [] \<rparr>) \<and>
      getOptions e f argv = Inl TypeError"
    if a: "mkOptions e f argv = Inr options \<and> tokenOk options \<and>
              patchOk f options \<and> singularOk options \<and> exitOk options" for options
  proof -
    have u: "storybookUrl options = JBool True"
      using a assms storybookUrl_sentinel by blast
    have r: "resolve e f options = (case finalizeUrl (JBool True) of
                  Inl err \<Rightarrow> Inl err
                | Inr u \<Rightarrow> Inr \<lparr> opts = options\<lparr>noStart := True, https := callerHttps options\<rparr>,
                                 url = Some u, notices = [] \<rparr>)"
      using resolve_url_mode [of options f e] a u by simp
    have "getOptions e f argv = Inl TypeError"
      using a by (simp add: getOptions_resolve r finalizeUrl_def)
    with u r show ?thesis by blast
  qed
  have sing: "getOptions e f argv =
      Inl (InvalidSingularOptions (map labelOf (foundSingularOpts options)))"
    if "mkOptions e f argv = Inr options \<and> tokenOk options \<and>
              patchOk f options \<and> \<not> singularOk options" for options
    using that resolve_singular [of options f e "map labelOf (foundSingularOpts options)"]
    by (simp add: getOptions_resolve singularOk_def)
  have exit: "getOptions e f argv = Inl InvalidExitOnceUploaded"
    if "mkOptions e f argv = Inr options \<and> tokenOk options \<and>
              patchOk f options \<and> singularOk options \<and> \<not> exitOk options" for options
    using that resolve_exit_once_uploaded [of options f e]
    by (auto simp: getOptions_resolve exitOk_def)
  have "\<not> namedError TypeError" by simp
  with never reach sing exit show ?thesis by blast
qed

theorem C10_storybook_url_without_value_witness:
  "getOptions (envWith Map.empty) (noFlags\<lparr>fl_storybookUrl := JStr []\<rparr>) [] = Inl TypeError
   \<and> storybookUrl (optionsRecord (envWith Map.empty) (noFlags\<lparr>fl_storybookUrl := JStr []\<rparr>)
        [] [] Undefined) = JBool True
   \<and> getOptions (envWith Map.empty)
        (noFlags\<lparr>fl_storybookUrl := JStr [], fl_exec := JStr ''serve''\<rparr>) []
       = Inl (InvalidSingularOptions [''--exec'', ''--storybook-url''])
   \<and> getOptions (envWith Map.empty)
        (noFlags\<lparr>fl_storybookUrl := JStr [], fl_exitOnceUploaded := JBool True\<rparr>) []
       = Inl InvalidExitOnceUploaded"
proof -
  let ?e = "envWith Map.empty"
  let ?f = "noFlags\<lparr>fl_storybookUrl := JStr []\<rparr>"
  let ?g = "noFlags\<lparr>fl_storybookUrl := JStr [], fl_exec := JStr ''serve''\<rparr>"
  let ?h = "noFlags\<lparr>fl_storybookUrl := JStr [], fl_exitOnceUploaded := JBool True\<rparr>"
  let ?o = "optionsRecord ?e ?f [] [] Undefined"
  let ?p = "optionsRecord ?e ?g [] [] Undefined"
  let ?q = "optionsRecord ?e ?h [] [] Undefined"
  have m: "mkOptions ?e ?f [] = Inr ?o"
    by (rule mkOptions_noFlags) (simp_all add: noFlags_def)
  have mg: "mkOptions ?e ?g [] = Inr ?p"
    by (rule mkOptions_noFlags) (simp_all add: noFlags_def)
  have mh: "mkOptions ?e ?h [] = Inr ?q"
    by (rule mkOptions_noFlags) (simp_all add: noFlags_def)
  have c: "tokenOk ?o \<and> patchOk ?f ?o \<and> singularOk ?o \<and> exitOk ?o"
    by (simp add: sample_defs)
  have cg: "tokenOk ?p \<and> patchOk ?g ?p \<and> \<not> singularOk ?p"
    by (simp add: sample_defs)
  have lg: "map labelOf (foundSingularOpts ?p) = [''--exec'', ''--storybook-url'']"
    by (simp add: labels_found) (simp add: sample_defs)
  have ch: "tokenOk ?q \<and> patchOk ?h ?q \<and> singularOk ?q \<and> \<not> exitOk ?q"
    by (simp add: sample_defs)
  have a: "fl_storybookUrl ?f = JStr []" and ag: "fl_storybookUrl ?g = JStr []"
    and ah: "fl_storybookUrl ?h = JStr []"
    by simp_all
  have "getOptions ?e ?f [] = Inl TypeError \<and> storybookUrl ?o = JBool True"
    using C10_storybook_url_without_value [OF a, of ?e "[]"] m c by blast
  moreover have "getOptions ?e ?g [] = Inl (InvalidSingularOptions [''--exec'', ''--storybook-url''])"
    using C10_storybook_url_without_value [OF ag, of ?e "[]"] mg cg lg by metis
  moreover have "getOptions ?e ?h [] = Inl InvalidExitOnceUploaded"
    using C10_storybook_url_without_value [OF ah, of ?e "[]"] mh ch by blast
  ultimately show ?thesis by blast
qed


section \<open>Finalizing the URL twice\<close>






lemma splitProto_cases:
  obtains r where "splitProto s = (None, r)" | pr r where "splitProto s = (Some pr, r)"
  by (cases "splitProto s") (metis not_Some_eq prod.collapse prod.inject)

lemma dropWhile_hd: "dropWhile P xs = [] \<or> \<not> P (hd (dropWhile P xs))"
  by (metis hd_dropWhile)









































end
